theory Spec2Isabelle
  imports Complex_Main "HOL-Library.Word"
begin

section \<open>Conventions\<close>

text \<open>
  The repository holds three back ends for the same shop: a document-store cart over
  \<^verbatim>\<open>Item\<close> documents (\<^verbatim>\<open>backend/src\<close>), a document-store cart and order
  controller over \<^verbatim>\<open>Product\<close> documents (\<^verbatim>\<open>backend\<close>), and a relational
  back end written in Go.  Each is embedded below as functions from a store to a
  response and the store that results.

  An amount (a JavaScript \<^verbatim>\<open>Number\<close> or a Go \<^verbatim>\<open>float64\<close> holding a price or a total)
  is embedded as the rational number it denotes, and every addition and multiplication of
  amounts rounds to binary64 as the machine does; infinities, NaN and subnormal numbers are
  outside the model.  Quantities and stock counts are integers of a magnitude below
  \<open>2\<^sup>5\<^sup>3\<close>, on which \<^verbatim>\<open>Number\<close> arithmetic is exact; they are \<^typ>\<open>int\<close> and \<^typ>\<open>nat\<close>.
  Object ids are natural numbers below \<open>16\<^sup>2\<^sup>4\<close>.  A collection or table is read in the
  order of its keys, which is the order in which the model keeps it.
\<close>

type_synonym object_id = nat

text \<open>\<^verbatim>\<open>Array.prototype.findIndex\<close>; the result \<^verbatim>\<open>-1\<close> is \<^term>\<open>None\<close>.\<close>

fun findIndex :: "('a \<Rightarrow> bool) \<Rightarrow> 'a list \<Rightarrow> nat option" where
  "findIndex P [] = None"
| "findIndex P (x # xs) = (if P x then Some 0 else map_option Suc (findIndex P xs))"

text \<open>\<^verbatim>\<open>xs.splice(i, 1)\<close>: the list without the element at index \<open>i\<close>.\<close>

definition splice1 :: "nat \<Rightarrow> 'a list \<Rightarrow> 'a list" where
  "splice1 i xs = take i xs @ drop (Suc i) xs"

section \<open>Binary floating point\<close>

text \<open>The number of binary digits of a positive integer.\<close>

function bitlen :: "int \<Rightarrow> int" where
  "bitlen n = (if n \<le> 0 then 0 else 1 + bitlen (n div 2))"
  by pat_completeness auto
termination
  by (relation "measure nat") auto

declare bitlen.simps [simp del]

definition round_half_even :: "rat \<Rightarrow> int" where
  "round_half_even m =
     (let f = \<lfloor>m\<rfloor>; r = m - of_int f
      in if r < 1 / 2 then f
         else if 1 / 2 < r then f + 1
         else if even f then f else f + 1)"

text \<open>
  Rounding to binary64, to nearest and to even on a tie: \<open>e\<close> is the exponent for which
  the significand \<open>\<bar>x\<bar> / 2\<^sup>e\<close> lies between \<open>2\<^sup>5\<^sup>2\<close> and \<open>2\<^sup>5\<^sup>3\<close>, and the significand is
  rounded to an integer.
\<close>

definition fl :: "rat \<Rightarrow> rat" where
  "fl x =
     (if x = 0 then 0
      else
        (let (a, b) = quotient_of \<bar>x\<bar>;
             k = bitlen a - bitlen b;
             e = (if \<bar>x\<bar> < 2 powi k then k - 1 else k) - 52
         in sgn x * of_int (round_half_even (\<bar>x\<bar> / 2 powi e)) * 2 powi e))"

text \<open>
  \<^verbatim>\<open>x + y\<close> and \<^verbatim>\<open>x * y\<close> on amounts.  An operand that is no binary64 number stands for
  the decimal literal of that value, which is read as the nearest binary64 number.  In Go
  the product and the sum of \<^verbatim>\<open>total += price * quantity\<close> are rounded one after the other
  (no fused multiply-add).
\<close>

definition fadd :: "rat \<Rightarrow> rat \<Rightarrow> rat" where
  "fadd x y = fl (fl x + fl y)"

definition fmul :: "rat \<Rightarrow> rat \<Rightarrow> rat" where
  "fmul x y = fl (fl x * fl y)"

text \<open>
  \<^verbatim>\<open>parseFloat(x.toFixed(2))\<close> and \<^verbatim>\<open>Number(x.toFixed(2))\<close>: \<^verbatim>\<open>toFixed\<close> prints the
  multiple of 0.01 nearest to the exact value of \<open>x\<close>, the larger one in magnitude when two
  are equally near, and the parser reads the print back as a binary64 number.
\<close>

definition toFixed2 :: "rat \<Rightarrow> rat" where
  "toFixed2 x =
     (if fl x < 0 then - fl (of_int \<lfloor>- fl x * 100 + 1 / 2\<rfloor> / 100)
      else fl (of_int \<lfloor>fl x * 100 + 1 / 2\<rfloor> / 100))"

section \<open>Requests\<close>

text \<open>
  An item id arrives as a string.  \<^verbatim>\<open>isMongoId\<close> of the route admits a string of
  length 24 that is hexadecimal in either case, with or without a prefix \<^verbatim>\<open>0x\<close> or
  \<^verbatim>\<open>0h\<close> (in either case as well); the cast to an object id succeeds on 24 hexadecimal
  digits of either case, and \<^verbatim>\<open>toString\<close> of an object id prints 24 digits in lower
  case.
\<close>

definition hex_value :: "char \<Rightarrow> nat option" where
  "hex_value c =
     (let n = of_char c :: nat
      in if 48 \<le> n \<and> n \<le> 57 then Some (n - 48)
         else if 97 \<le> n \<and> n \<le> 102 then Some (n - 87)
         else if 65 \<le> n \<and> n \<le> 70 then Some (n - 55)
         else None)"

definition hex_digit :: "nat \<Rightarrow> char" where
  "hex_digit d = char_of (if d < 10 then 48 + d else 87 + d)"

function hex :: "nat \<Rightarrow> string" where
  "hex n = (if n < 16 then [hex_digit n] else hex (n div 16) @ [hex_digit (n mod 16)])"
  by pat_completeness auto
termination
  by (relation "measure id") auto

declare hex.simps [simp del]

definition toString :: "object_id \<Rightarrow> string" where
  "toString oid = (let ds = hex oid in replicate (24 - length ds) (CHR ''0'') @ ds)"

definition ObjectId :: "string \<Rightarrow> object_id option" where
  "ObjectId s =
     (if length s = 24 \<and> list_all (\<lambda>c. hex_value c \<noteq> None) s
      then Some (foldl (\<lambda>a c. 16 * a + the (hex_value c)) 0 s)
      else None)"

definition isHexadecimal :: "string \<Rightarrow> bool" where
  "isHexadecimal s =
     (let digits = (if take 2 s \<in> {''0x'', ''0X'', ''0h'', ''0H''} then drop 2 s else s)
      in digits \<noteq> [] \<and> list_all (\<lambda>c. hex_value c \<noteq> None) digits)"

definition isMongoId :: "string \<Rightarrow> bool" where
  "isMongoId s \<longleftrightarrow> isHexadecimal s \<and> length s = 24"

text \<open>
  A quantity arrives as a JSON number or as a JSON string.  \<^verbatim>\<open>isInt\<close> of the route
  admits an integer number and a string of decimal digits with an optional sign, and
  leaves the value as it came.  \<^verbatim>\<open>ToNumber\<close> gives the numeric value of a string of
  decimal digits with an optional sign, and none (\<^verbatim>\<open>NaN\<close>) for any other string.  The
  strings it is applied to are admitted quantities and the print of a stored quantity
  followed by an admitted quantity; on these it is the numeric value in JavaScript.
\<close>

datatype request_quantity = Num int | Str string

definition is_digit :: "char \<Rightarrow> bool" where
  "is_digit c \<longleftrightarrow> 48 \<le> (of_char c :: nat) \<and> (of_char c :: nat) \<le> 57"

definition digits_value :: "string \<Rightarrow> int" where
  "digits_value ds = foldl (\<lambda>a c. 10 * a + (int (of_char c) - 48)) 0 ds"

definition ToNumber :: "string \<Rightarrow> int option" where
  "ToNumber s =
     (case s of
        [] \<Rightarrow> None
      | c # ds \<Rightarrow>
          if (c = CHR ''-'' \<or> c = CHR ''+'') \<and> ds \<noteq> [] \<and> list_all is_digit ds
          then Some (if c = CHR ''-'' then - digits_value ds else digits_value ds)
          else if list_all is_digit (c # ds) then Some (digits_value (c # ds))
          else None)"

text \<open>\<^verbatim>\<open>String(n)\<close> for an integer: its decimal digits, after a minus sign when it is negative.\<close>

function decimal :: "int \<Rightarrow> string" where
  "decimal n =
     (if n < 0 then CHR ''-'' # decimal (- n)
      else if n < 10 then [char_of (48 + n)]
      else decimal (n div 10) @ [char_of (48 + n mod 10)])"
  by pat_completeness auto
termination
  by (relation "measure (\<lambda>n. if n < 0 then nat (- n) + 1 else nat n)") auto

declare decimal.simps [simp del]

text \<open>
  The validator \<^verbatim>\<open>isInt({ min })\<close> on a quantity, and the number a quantity stands for
  in a comparison and in a cast.
\<close>

definition isInt_min :: "int \<Rightarrow> request_quantity \<Rightarrow> bool" where
  "isInt_min m q =
     (case q of
        Num n \<Rightarrow> m \<le> n
      | Str s \<Rightarrow> (case ToNumber s of None \<Rightarrow> False | Some n \<Rightarrow> m \<le> n))"

definition quantity_value :: "request_quantity \<Rightarrow> int option" where
  "quantity_value q = (case q of Num n \<Rightarrow> Some n | Str s \<Rightarrow> ToNumber s)"

text \<open>\<^verbatim>\<open>n + quantity\<close>: a sum for a number, the concatenation of the prints for a string.\<close>

definition plus_quantity :: "int \<Rightarrow> request_quantity \<Rightarrow> request_quantity" where
  "plus_quantity n q = (case q of Num m \<Rightarrow> Num (n + m) | Str s \<Rightarrow> Str (decimal n @ s))"

section \<open>The Item cart: models/Item.js, models/Cart.js, cartController.js\<close>

subsection \<open>Documents\<close>

text \<open>
  \<^verbatim>\<open>itemSchema\<close>, restricted to the fields the cart reads.  \<^verbatim>\<open>countInStock\<close> has
  the validator \<^verbatim>\<open>min: 0\<close>, hence a natural number.
\<close>

record item =
  item_name :: string
  item_image :: string
  item_price :: rat
  countInStock :: nat

text \<open>\<^verbatim>\<open>cartItemSchema\<close>: a reference to the item and a copy of name, image and price.\<close>

record cartItem =
  ci_item :: object_id
  ci_name :: string
  ci_image :: string
  ci_price :: rat
  ci_quantity :: int

text \<open>
  \<^verbatim>\<open>cartSchema\<close>.  The field \<^verbatim>\<open>user\<close> carries a unique index: it is the key under
  which the cart is kept in the collection below, \<^verbatim>\<open>Cart.findOne({ user })\<close> is a lookup
  of that key, and saving a cart of a user writes at that key.
\<close>

record cart =
  cart_items :: "cartItem list"
  totalPrice :: rat
  totalItems :: int

record store =
  Items :: "object_id \<rightharpoonup> item"
  Carts :: "object_id \<rightharpoonup> cart"

datatype error =
    ValidationErrors      \<comment> \<open>400, \<^verbatim>\<open>{ errors: errors.array() }\<close>\<close>
  | ItemNotFound          \<comment> \<open>404, \<^verbatim>\<open>Item not found\<close>\<close>
  | OnlyInStock nat       \<comment> \<open>400, \<^verbatim>\<open>Only n items available in stock\<close>\<close>
  | CannotAddMore nat     \<comment> \<open>400, \<^verbatim>\<open>Cannot add more than n items to cart\<close>\<close>
  | CartNotFound          \<comment> \<open>404, \<^verbatim>\<open>Cart not found\<close>\<close>
  | ItemNotInCart         \<comment> \<open>404, \<^verbatim>\<open>Item not found in cart\<close>\<close>
  | ServerError           \<comment> \<open>500, \<^verbatim>\<open>Server Error\<close>\<close>

subsection \<open>Saving a cart\<close>

text \<open>
  The validators of \<^verbatim>\<open>cartItemSchema\<close>: name and image are required (an empty string
  does not count), price is at least 0, quantity at least 1.
\<close>

definition validate_cartItem :: "cartItem \<Rightarrow> bool" where
  "validate_cartItem ci \<longleftrightarrow>
     ci_name ci \<noteq> [] \<and> ci_image ci \<noteq> [] \<and> 0 \<le> ci_price ci \<and> 1 \<le> ci_quantity ci"

definition validate_cart :: "cart \<Rightarrow> bool" where
  "validate_cart c \<longleftrightarrow> list_all validate_cartItem (cart_items c)"

text \<open>\<^verbatim>\<open>cartSchema.pre('save')\<close>: both totals are recomputed from the line items.\<close>

definition pre_save :: "cart \<Rightarrow> cart" where
  "pre_save c =
     c\<lparr> totalItems := foldl (\<lambda>total i. total + ci_quantity i) 0 (cart_items c),
        totalPrice := foldl (\<lambda>total i. fadd total (fmul (ci_price i) (of_int (ci_quantity i))))
                        0 (cart_items c) \<rparr>"

text \<open>
  \<^verbatim>\<open>cart.save()\<close> for the cart of \<open>user\<close>: validation runs first and rejects the
  document; otherwise the hook runs and the document replaces the stored one.  The saved
  document is returned with the new store.
\<close>

definition save :: "store \<Rightarrow> object_id \<Rightarrow> cart \<Rightarrow> (cart \<times> store) option" where
  "save s user c =
     (if validate_cart c
      then (let c' = pre_save c in Some (c', s\<lparr> Carts := (Carts s)(user \<mapsto> c') \<rparr>))
      else None)"

subsection \<open>Responses\<close>

text \<open>
  \<^verbatim>\<open>populate('items.item', 'name price image countInStock')\<close> pairs every line with
  the item it refers to, or with \<^verbatim>\<open>null\<close> when that item is gone.
\<close>

definition populate :: "store \<Rightarrow> cartItem list \<Rightarrow> (cartItem \<times> item option) list" where
  "populate s ls = map (\<lambda>ci. (ci, Items s (ci_item ci))) ls"

record cart_view =
  view_items :: "(cartItem \<times> item option) list"
  view_totalItems :: int
  view_totalPrice :: rat

definition view :: "store \<Rightarrow> cart \<Rightarrow> cart_view" where
  "view s c =
     \<lparr> view_items = populate s (cart_items c),
       view_totalItems = totalItems c,
       view_totalPrice = totalPrice c \<rparr>"

text \<open>
  The common tail of the mutating handlers: \<^verbatim>\<open>await cart.save()\<close>, then the populated
  cart as the response; an exception of the save is caught and answered with 500.
\<close>

definition save_and_respond ::
  "store \<Rightarrow> object_id \<Rightarrow> cart \<Rightarrow> (error + cart_view) \<times> store" where
  "save_and_respond s user c =
     (case save s user c of
        None \<Rightarrow> (Inl ServerError, s)
      | Some (c', s') \<Rightarrow> (Inr (view s' c'), s'))"

subsection \<open>getCart\<close>

definition in_inventory :: "store \<Rightarrow> cartItem \<Rightarrow> bool" where
  "in_inventory s ci =
     (case Items s (ci_item ci) of None \<Rightarrow> False | Some it \<Rightarrow> 0 < countInStock it)"

definition getCart :: "store \<Rightarrow> object_id \<Rightarrow> (error + cart_view) \<times> store" where
  "getCart s user =
     (case Carts s user of
        None \<Rightarrow> (Inr \<lparr> view_items = [], view_totalItems = 0, view_totalPrice = 0 \<rparr>, s)
      | Some cart \<Rightarrow>
          (let validItems = filter (in_inventory s) (cart_items cart) in
           if length validItems \<noteq> length (cart_items cart)
           then save_and_respond s user (cart\<lparr> cart_items := validItems \<rparr>)
           else (Inr (view s cart), s)))"

subsection \<open>addItemToCart\<close>

text \<open>
  The route validates \<^verbatim>\<open>itemId\<close> with \<^verbatim>\<open>isMongoId\<close> and \<^verbatim>\<open>quantity\<close> as an optional
  integer of at least 1; the handler defaults the quantity to the number 1.  A string that
  cannot be cast to an object id makes \<^verbatim>\<open>findById\<close> throw a cast error, answered with 404.
  A line is looked for by comparing the print of its item id with the string of the
  request.  A quantity that cannot be cast to a number makes the save fail.
\<close>

definition addItemToCart ::
  "store \<Rightarrow> object_id \<Rightarrow> string \<Rightarrow> request_quantity option \<Rightarrow> (error + cart_view) \<times> store" where
  "addItemToCart s user itemId quantity_opt =
     (if \<not> isMongoId itemId \<or>
         (case quantity_opt of None \<Rightarrow> False | Some q \<Rightarrow> \<not> isInt_min 1 q)
      then (Inl ValidationErrors, s)
      else
        (let quantity = (case quantity_opt of None \<Rightarrow> Num 1 | Some q \<Rightarrow> q) in
         case ObjectId itemId of
           None \<Rightarrow> (Inl ItemNotFound, s)
         | Some item_id \<Rightarrow>
             (case Items s item_id of
                None \<Rightarrow> (Inl ItemNotFound, s)
              | Some item \<Rightarrow>
                  if (case quantity_value quantity of
                        None \<Rightarrow> False | Some n \<Rightarrow> int (countInStock item) < n)
                  then (Inl (OnlyInStock (countInStock item)), s)
                  else
                    (let cart = (case Carts s user of
                                   None \<Rightarrow> \<lparr> cart_items = [], totalPrice = 0, totalItems = 0 \<rparr>
                                 | Some c \<Rightarrow> c)
                     in case findIndex (\<lambda>cartItem. toString (ci_item cartItem) = itemId)
                               (cart_items cart) of
                          Some existingItemIndex \<Rightarrow>
                            (let newQuantity =
                                   plus_quantity
                                     (ci_quantity (cart_items cart ! existingItemIndex)) quantity
                             in if (case quantity_value newQuantity of
                                      None \<Rightarrow> False | Some n \<Rightarrow> n > int (countInStock item))
                                then (Inl (CannotAddMore (countInStock item)), s)
                                else
                                  (case quantity_value newQuantity of
                                     None \<Rightarrow> (Inl ServerError, s)
                                   | Some n \<Rightarrow>
                                       save_and_respond s user
                                         (cart\<lparr> cart_items := (cart_items cart)
                                             [existingItemIndex :=
                                                (cart_items cart ! existingItemIndex)
                                                  \<lparr> ci_quantity := n \<rparr>] \<rparr>)))
                        | None \<Rightarrow>
                            (case quantity_value quantity of
                               None \<Rightarrow> (Inl ServerError, s)
                             | Some n \<Rightarrow>
                                 save_and_respond s user
                                   (cart\<lparr> cart_items := cart_items cart @
                                       [\<lparr> ci_item = item_id, ci_name = item_name item,
                                          ci_image = (if item_image item = [] then ''no-photo.jpg''
                                                      else item_image item),
                                          ci_price = item_price item, ci_quantity = n \<rparr>] \<rparr>))))))"

subsection \<open>updateCartItem, removeItemFromCart, clearCart\<close>

text \<open>
  The route validates \<^verbatim>\<open>quantity\<close> as a required integer of at least 0.  The handlers
  of this subsection use the quantity only in comparisons and in a cast, where a string of
  digits counts as its number, and they take the item id in its printed form: the
  arguments are the number and the object id.
\<close>

definition updateCartItem ::
  "store \<Rightarrow> object_id \<Rightarrow> object_id \<Rightarrow> int \<Rightarrow> (error + cart_view) \<times> store" where
  "updateCartItem s user itemId quantity =
     (if quantity < 0 then (Inl ValidationErrors, s)
      else
        case Items s itemId of
          None \<Rightarrow> (Inl ItemNotFound, s)
        | Some item \<Rightarrow>
            if quantity > int (countInStock item)
            then (Inl (OnlyInStock (countInStock item)), s)
            else
              (case Carts s user of
                 None \<Rightarrow> (Inl CartNotFound, s)
               | Some cart \<Rightarrow>
                   (case findIndex (\<lambda>i. ci_item i = itemId) (cart_items cart) of
                      None \<Rightarrow> (Inl ItemNotInCart, s)
                    | Some itemIndex \<Rightarrow>
                        if quantity \<le> 0
                        then save_and_respond s user
                               (cart\<lparr> cart_items := splice1 itemIndex (cart_items cart) \<rparr>)
                        else save_and_respond s user
                               (cart\<lparr> cart_items := (cart_items cart)
                                   [itemIndex := (cart_items cart ! itemIndex)
                                      \<lparr> ci_quantity := quantity \<rparr>] \<rparr>))))"

definition removeItemFromCart ::
  "store \<Rightarrow> object_id \<Rightarrow> object_id \<Rightarrow> (error + cart_view) \<times> store" where
  "removeItemFromCart s user itemId =
     (case Carts s user of
        None \<Rightarrow> (Inl CartNotFound, s)
      | Some cart \<Rightarrow>
          (case findIndex (\<lambda>i. ci_item i = itemId) (cart_items cart) of
             None \<Rightarrow> (Inl ItemNotInCart, s)
           | Some itemIndex \<Rightarrow>
               save_and_respond s user (cart\<lparr> cart_items := splice1 itemIndex (cart_items cart) \<rparr>)))"

definition clearCart :: "store \<Rightarrow> object_id \<Rightarrow> (error + unit) \<times> store" where
  "clearCart s user =
     (case Carts s user of
        None \<Rightarrow> (Inl CartNotFound, s)
      | Some cart \<Rightarrow>
          (case save s user (cart\<lparr> cart_items := [] \<rparr>) of
             None \<Rightarrow> (Inl ServerError, s)
           | Some (c', s') \<Rightarrow> (Inr (), s')))"

subsection \<open>The methods of the cart model\<close>



section \<open>The relational back end in Go: models, handlers/orders.go, handlers/carts.go\<close>

subsection \<open>Rows and tables\<close>

text \<open>
  The structs of package \<^verbatim>\<open>models\<close>, one record per table, with the fields of
  \<^verbatim>\<open>gorm.Model\<close> that the handlers read (\<^verbatim>\<open>ID\<close>, and \<^verbatim>\<open>CreatedAt\<close> of an
  order).  Ids are \<^verbatim>\<open>uint\<close> keys handed out by the database, times are seconds;
  \<^verbatim>\<open>Quantity\<close> is a Go \<^verbatim>\<open>int\<close>, a signed 64-bit word whose \<^verbatim>\<open>+=\<close> wraps.
\<close>

record Item =
  Item_ID :: nat
  Item_Name :: string
  Item_Description :: string
  Item_Price :: rat

record CartItem =
  CartItem_ID :: nat
  CartItem_CartID :: nat
  CartItem_ItemID :: nat
  Quantity :: "64 word"

record Cart =
  Cart_ID :: nat
  Cart_UserID :: nat
  IsCheckedOut :: bool
  CheckedOutAt :: "nat option"

record Order =
  Order_ID :: nat
  Order_CreatedAt :: nat
  Order_UserID :: nat
  Order_CartID :: nat
  Total :: rat
  Status :: string

record db =
  tbl_items :: "Item list"
  tbl_carts :: "Cart list"
  tbl_cart_items :: "CartItem list"
  tbl_orders :: "Order list"

text \<open>The JSON error bodies of the handlers, by status code.\<close>

datatype api_error =
    BindingError                  \<comment> \<open>400 with the message of \<^verbatim>\<open>ShouldBindJSON\<close>\<close>
  | BadRequest string             \<comment> \<open>400\<close>
  | NotFound string               \<comment> \<open>404\<close>
  | InternalServerError string    \<comment> \<open>500\<close>

text \<open>
  Every call to the database may fail with a storage error.  Which calls fail is an
  input of the model, one flag per call site: the first query of a handler, the lookup of
  the item, the lookup of the cart line, \<^verbatim>\<open>Create\<close>, \<^verbatim>\<open>Save\<close> and \<^verbatim>\<open>Commit\<close>.
\<close>

record faults =
  fail_first :: bool
  fail_item :: bool
  fail_lookup :: bool
  fail_create :: bool
  fail_save :: bool
  fail_commit :: bool

text \<open>
  A transaction works on its own copy of the tables: \<^verbatim>\<open>Begin\<close> takes the copy,
  \<^verbatim>\<open>Commit\<close> installs it and \<^verbatim>\<open>Rollback\<close> keeps the tables as they were.  Both take
  the tables before the transaction and the working copy.
\<close>

definition Begin :: "db \<Rightarrow> db" where
  "Begin d = d"

definition Commit :: "db \<Rightarrow> db \<Rightarrow> db" where
  "Commit d tx = tx"

definition Rollback :: "db \<Rightarrow> db \<Rightarrow> db" where
  "Rollback d tx = d"

text \<open>The key of a new row: one more than the largest key in use.\<close>

definition next_id :: "nat list \<Rightarrow> nat" where
  "next_id ids = Suc (foldr max ids 0)"

subsection \<open>Queries\<close>

text \<open>
  \<^verbatim>\<open>Where("user_id = ? AND is_checked_out = ?", id, false).First(&cart)\<close>: the first
  open cart of the user, the table being kept in the order of its keys.
\<close>

definition first_open_cart :: "db \<Rightarrow> nat \<Rightarrow> Cart option" where
  "first_open_cart d user_id =
     find (\<lambda>c. Cart_UserID c = user_id \<and> \<not> IsCheckedOut c) (tbl_carts d)"

text \<open>
  \<^verbatim>\<open>Preload("CartItems.Item")\<close>: the lines of a cart, each with the item row it refers
  to.  A line whose item row is missing carries the zero \<^verbatim>\<open>Item\<close>.
\<close>

definition zero_Item :: Item where
  "zero_Item = \<lparr> Item_ID = 0, Item_Name = [], Item_Description = [], Item_Price = 0 \<rparr>"

definition preload_Item :: "db \<Rightarrow> CartItem \<Rightarrow> Item" where
  "preload_Item d ci =
     (case find (\<lambda>i. Item_ID i = CartItem_ItemID ci) (tbl_items d) of
        Some i \<Rightarrow> i
      | None \<Rightarrow> zero_Item)"

definition preload_CartItems :: "db \<Rightarrow> nat \<Rightarrow> (CartItem \<times> Item) list" where
  "preload_CartItems d cart_id =
     map (\<lambda>ci. (ci, preload_Item d ci))
       (filter (\<lambda>ci. CartItem_CartID ci = cart_id) (tbl_cart_items d))"

subsection \<open>CreateOrder\<close>

text \<open>
  The handler for \<^verbatim>\<open>POST /api/orders\<close>, for the authenticated user and the current
  time.  The answer is the error body or the id of the new order.  \<^verbatim>\<open>tx.Save(&cart)\<close>
  rewrites the row of the cart; the lines and items loaded with it are rows that exist
  already and stay as they are.
\<close>

definition CreateOrder :: "faults \<Rightarrow> nat \<Rightarrow> db \<Rightarrow> nat \<Rightarrow> (api_error + nat) \<times> db" where
  "CreateOrder f now d currentUser =
     (let tx = Begin d in
      if fail_first f
      then (Inl (InternalServerError ''failed to process order''), Rollback d tx)
      else
        case first_open_cart tx currentUser of
          None \<Rightarrow> (Inl (BadRequest ''no active cart found''), Rollback d tx)
        | Some cart \<Rightarrow>
            (let CartItems = preload_CartItems tx (Cart_ID cart) in
             if length CartItems = 0
             then (Inl (BadRequest ''cart is empty''), Rollback d tx)
             else
               (let total = foldl (\<lambda>total (item, it).
                                     fadd total
                                       (fmul (Item_Price it) (of_int (sint (Quantity item)))))
                              0 CartItems;
                    order = \<lparr> Order_ID = next_id (map Order_ID (tbl_orders tx)),
                              Order_CreatedAt = now,
                              Order_UserID = currentUser,
                              Order_CartID = Cart_ID cart,
                              Total = total,
                              Status = ''completed'' \<rparr>
                in if fail_create f
                   then (Inl (InternalServerError ''failed to create order''), Rollback d tx)
                   else
                     (let tx1 = tx\<lparr> tbl_orders := tbl_orders tx @ [order] \<rparr> in
                      if fail_save f
                      then (Inl (InternalServerError ''failed to update cart status''),
                            Rollback d tx1)
                      else
                        (let cart' = cart\<lparr> IsCheckedOut := True, CheckedOutAt := Some now \<rparr>;
                             tx2 = tx1\<lparr> tbl_carts :=
                                      map (\<lambda>c. if Cart_ID c = Cart_ID cart' then cart' else c)
                                        (tbl_carts tx1) \<rparr>
                         in if fail_commit f
                            then (Inl (InternalServerError ''failed to process order''),
                                  Rollback d tx2)
                            else (Inr (Order_ID order), Commit d tx2))))))"

subsection \<open>GetUserOrders\<close>

record order_item_json =
  json_id :: nat
  json_name :: string
  json_description :: string
  json_price :: rat
  json_quantity :: "64 word"

record order_json =
  order_json_id :: nat
  order_json_total :: rat
  order_json_status :: string
  order_json_created_at :: nat
  order_json_items :: "order_item_json list"

text \<open>
  \<^verbatim>\<open>Preload("Cart.CartItems.Item")\<close> on an order: the lines of the cart the order points
  to, none when that cart row is missing.
\<close>

definition preload_Cart_CartItems :: "db \<Rightarrow> Order \<Rightarrow> (CartItem \<times> Item) list" where
  "preload_Cart_CartItems d order =
     (case find (\<lambda>c. Cart_ID c = Order_CartID order) (tbl_carts d) of
        None \<Rightarrow> []
      | Some c \<Rightarrow> preload_CartItems d (Cart_ID c))"

text \<open>\<^verbatim>\<open>Order("created_at DESC")\<close>.\<close>

definition order_by_created_at_desc :: "Order list \<Rightarrow> Order list" where
  "order_by_created_at_desc os = rev (sort_key Order_CreatedAt os)"

definition GetUserOrders :: "faults \<Rightarrow> db \<Rightarrow> nat \<Rightarrow> api_error + order_json list" where
  "GetUserOrders f d currentUser =
     (if fail_first f then Inl (InternalServerError ''failed to fetch orders'')
      else
        Inr (map (\<lambda>order.
                    \<lparr> order_json_id = Order_ID order,
                      order_json_total = Total order,
                      order_json_status = Status order,
                      order_json_created_at = Order_CreatedAt order,
                      order_json_items =
                        map (\<lambda>(item, it).
                               \<lparr> json_id = CartItem_ItemID item,
                                 json_name = Item_Name it,
                                 json_description = Item_Description it,
                                 json_price = Item_Price it,
                                 json_quantity = Quantity item \<rparr>)
                          (preload_Cart_CartItems d order) \<rparr>)
               (order_by_created_at_desc
                  (filter (\<lambda>row. Order_UserID row = currentUser) (tbl_orders d)))))"

subsection \<open>AddToCart\<close>

text \<open>
  The handler for \<^verbatim>\<open>POST /api/carts\<close>.  \<^verbatim>\<open>AddToCartRequest\<close> binds \<^verbatim>\<open>item_id\<close>
  as required (not 0) and \<^verbatim>\<open>quantity\<close> as required with \<^verbatim>\<open>min=1\<close>.  The answer is the
  error body or the id of the cart.
\<close>

definition AddToCart ::
  "faults \<Rightarrow> db \<Rightarrow> nat \<Rightarrow> nat \<Rightarrow> 64 word \<Rightarrow> (api_error + nat) \<times> db" where
  "AddToCart f d currentUser req_ItemID req_Quantity =
     (if req_ItemID = 0 \<or> sint req_Quantity < 1 then (Inl BindingError, d)
      else
        (let tx = Begin d in
         if fail_first f
         then (Inl (InternalServerError ''failed to get or create cart''), Rollback d tx)
         else
           (let (cart, tx1) =
                  (case first_open_cart tx currentUser of
                     Some c \<Rightarrow> (c, tx)
                   | None \<Rightarrow>
                       (let c = \<lparr> Cart_ID = next_id (map Cart_ID (tbl_carts tx)),
                                  Cart_UserID = currentUser,
                                  IsCheckedOut = False,
                                  CheckedOutAt = None \<rparr>
                        in (c, tx\<lparr> tbl_carts := tbl_carts tx @ [c] \<rparr>)))
            in if fail_item f \<or> find (\<lambda>i. Item_ID i = req_ItemID) (tbl_items tx1) = None
               then (Inl (NotFound ''item not found''), Rollback d tx1)
               else if fail_lookup f
               then (Inl (InternalServerError ''failed to process cart''), Rollback d tx1)
               else
                 (case find (\<lambda>ci. CartItem_CartID ci = Cart_ID cart \<and>
                                   CartItem_ItemID ci = req_ItemID) (tbl_cart_items tx1) of
                    Some cartItem \<Rightarrow>
                      if fail_save f
                      then (Inl (InternalServerError ''failed to update cart''), Rollback d tx1)
                      else
                        (let cartItem' = cartItem\<lparr> Quantity := Quantity cartItem + req_Quantity \<rparr>;
                             tx2 = tx1\<lparr> tbl_cart_items :=
                                      map (\<lambda>ci. if CartItem_ID ci = CartItem_ID cartItem'
                                                then cartItem' else ci)
                                        (tbl_cart_items tx1) \<rparr>
                         in if fail_commit f
                            then (Inl (InternalServerError ''failed to update cart''),
                                  Rollback d tx2)
                            else (Inr (Cart_ID cart), Commit d tx2))
                  | None \<Rightarrow>
                      if fail_create f
                      then (Inl (InternalServerError ''failed to add item to cart''),
                            Rollback d tx1)
                      else
                        (let cartItem = \<lparr> CartItem_ID =
                                            next_id (map CartItem_ID (tbl_cart_items tx1)),
                                          CartItem_CartID = Cart_ID cart,
                                          CartItem_ItemID = req_ItemID,
                                          Quantity = req_Quantity \<rparr>;
                             tx2 = tx1\<lparr> tbl_cart_items := tbl_cart_items tx1 @ [cartItem] \<rparr>
                         in if fail_commit f
                            then (Inl (InternalServerError ''failed to update cart''),
                                  Rollback d tx2)
                            else (Inr (Cart_ID cart), Commit d tx2))))))"

section \<open>The Product back end: models/Product.js, models/Cart.js, the Order schema, controllers/orders.js\<close>

subsection \<open>Documents\<close>

text \<open>
  \<^verbatim>\<open>ProductSchema\<close>, restricted to the fields the cart and the order controller read.
  \<^verbatim>\<open>inventory\<close> is a required number with no lower bound.
\<close>

record product =
  product_name :: string
  product_image :: string
  product_price :: rat
  inventory :: int

text \<open>\<^verbatim>\<open>CartItemSchema\<close> and \<^verbatim>\<open>CartSchema\<close> of models/Cart.js; name and image are optional.\<close>

record product_cartItem =
  pci_product :: object_id
  pci_quantity :: int
  pci_price :: rat
  pci_name :: "string option"
  pci_image :: "string option"

record product_cart =
  pc_items :: "product_cartItem list"
  subTotal :: rat
  tax :: rat
  total :: rat

text \<open>
  \<^verbatim>\<open>orderItemSchema\<close> and \<^verbatim>\<open>orderSchema\<close>: an order embeds its lines, each with its own
  name, image, price and quantity beside the reference to the catalog.  Address and payment
  data are kept as opaque strings.
\<close>

record orderItem =
  oi_name :: string
  oi_quantity :: int
  oi_image :: string
  oi_price :: rat
  oi_product :: object_id

record order =
  orderItems :: "orderItem list"
  order_user :: object_id
  shippingAddress :: string
  paymentMethod :: string
  itemsPrice :: rat
  taxPrice :: rat
  shippingPrice :: rat
  order_totalPrice :: rat

text \<open>
  The collections: products by id, carts by their user (unique index), and the orders in
  the order of their insertion; the position of an order serves as its id.
\<close>

record shop =
  Products :: "object_id \<rightharpoonup> product"
  ProductCarts :: "object_id \<rightharpoonup> product_cart"
  Orders :: "order list"

subsection \<open>The totals of a cart\<close>

definition TAX_RATE :: rat where
  "TAX_RATE = 1 / 10"

text \<open>
  A line without name or image takes both from its product, when the product exists
  (\<^verbatim>\<open>!item.name\<close> holds for a missing and for an empty string).
\<close>

definition product_details :: "(object_id \<rightharpoonup> product) \<Rightarrow> product_cartItem \<Rightarrow> product_cartItem" where
  "product_details ps item =
     (if pci_name item = None \<or> pci_name item = Some [] \<or>
         pci_image item = None \<or> pci_image item = Some []
      then (case ps (pci_product item) of
              Some p \<Rightarrow> item\<lparr> pci_name := Some (product_name p),
                              pci_image := Some (product_image p) \<rparr>
            | None \<Rightarrow> item)
      else item)"

text \<open>The assignments of \<^verbatim>\<open>CartSchema.methods.calculateTotals\<close> to the document.\<close>

definition calculateTotals_fields :: "(object_id \<rightharpoonup> product) \<Rightarrow> product_cart \<Rightarrow> product_cart" where
  "calculateTotals_fields ps this =
     (let subTotal' = foldl (\<lambda>sum item. fadd sum (fmul (pci_price item) (of_int (pci_quantity item))))
                        0 (pc_items this);
          tax' = toFixed2 (fmul subTotal' TAX_RATE);
          total' = toFixed2 (fadd subTotal' tax')
      in this\<lparr> pc_items := map (product_details ps) (pc_items this),
               subTotal := subTotal', tax := tax', total := total' \<rparr>)"

text \<open>
  \<^verbatim>\<open>cart.save()\<close> for the cart of \<open>user\<close>; \<open>items_modified\<close> says whether the items of
  the document were modified since it was loaded (they are for a new document).
  Validation (\<^verbatim>\<open>min: 1\<close> of the quantity) runs first.  \<^verbatim>\<open>CartSchema.pre('save')\<close> then
  does nothing for unmodified items, and the document is written.  For modified items the
  hook drops the lines with a quantity of 0 or less and awaits \<^verbatim>\<open>calculateTotals\<close>, which
  calls \<^verbatim>\<open>save()\<close> on the document that is being saved: that call is rejected as a
  parallel save, the hook fails with it, and nothing is written.
\<close>

definition product_cart_save ::
  "shop \<Rightarrow> object_id \<Rightarrow> bool \<Rightarrow> product_cart \<Rightarrow> (product_cart \<times> shop) option" where
  "product_cart_save s user items_modified cart =
     (if \<not> list_all (\<lambda>item. 1 \<le> pci_quantity item) (pc_items cart) then None
      else if items_modified then None
      else Some (cart, s\<lparr> ProductCarts := (ProductCarts s)(user \<mapsto> cart) \<rparr>))"

text \<open>
  \<^verbatim>\<open>calculateTotals\<close>: the assignments, then \<^verbatim>\<open>return this.save()\<close>.  Filling in a name
  or an image modifies the items.
\<close>

definition calculateTotals ::
  "shop \<Rightarrow> object_id \<Rightarrow> bool \<Rightarrow> product_cart \<Rightarrow> (product_cart \<times> shop) option" where
  "calculateTotals s user items_modified this =
     (let this' = calculateTotals_fields (Products s) this
      in product_cart_save s user (items_modified \<or> pc_items this' \<noteq> pc_items this) this')"

subsection \<open>The prices of an order\<close>

text \<open>
  \<^verbatim>\<open>orderSchema.pre('save')\<close> of the Order schema that is among the sources, the one
  over \<^verbatim>\<open>Item\<close> documents: items price, shipping (10 up to an items price of 100, free
  above), tax and total.  The validators of that schema are not part of this function.
\<close>

definition order_pre_save :: "order \<Rightarrow> order" where
  "order_pre_save this =
     (let itemsPrice' = foldl (\<lambda>acc item. fadd acc (fmul (oi_price item) (of_int (oi_quantity item))))
                          0 (orderItems this);
          shippingPrice' = (if itemsPrice' > 100 then 0 else 10);
          taxPrice' = toFixed2 (fmul (1 / 10) itemsPrice')
      in this\<lparr> itemsPrice := itemsPrice',
               shippingPrice := shippingPrice',
               taxPrice := taxPrice',
               order_totalPrice := fadd (fadd itemsPrice' shippingPrice') taxPrice' \<rparr>)"

subsection \<open>createOrder\<close>

text \<open>The body of \<^verbatim>\<open>POST /api/v1/orders\<close>; a line sent by the client names a product and a quantity.\<close>

record client_item =
  client_product :: object_id
  client_quantity :: int

record order_request =
  req_orderItems :: "client_item list option"
  req_shippingAddress :: string
  req_paymentMethod :: string
  req_itemsPrice :: rat
  req_taxPrice :: rat
  req_shippingPrice :: rat
  req_totalPrice :: rat

datatype order_error =
    NoOrderItems                \<comment> \<open>400, \<^verbatim>\<open>No order items\<close>\<close>
  | OrderItemsUndefined         \<comment> \<open>the \<^verbatim>\<open>TypeError\<close> of \<^verbatim>\<open>orderItems.map\<close> on a body without lines\<close>
  | ProductNotFound object_id   \<comment> \<open>\<^verbatim>\<open>Product not found: id\<close>\<close>
  | NotEnoughStock string       \<comment> \<open>\<^verbatim>\<open>Not enough stock for: name\<close>\<close>
  | OrderRejected               \<comment> \<open>the order document failed to save\<close>
  | OrderNotFound               \<comment> \<open>404, \<^verbatim>\<open>Order not found\<close>\<close>
  | NotAuthorized               \<comment> \<open>401, \<^verbatim>\<open>Not authorized to view this order\<close>\<close>

text \<open>
  The callback of \<^verbatim>\<open>orderItems.map\<close>, line by line.  The products found in the database
  are documents in memory; a line lowers the inventory of its document and saves it at
  once, so a later line for the same product meets the lowered inventory, and an exception
  at a later line leaves the earlier writes in place.  The save is not awaited; the model
  takes its write as done.
\<close>

fun dbItems ::
  "(object_id \<rightharpoonup> product) \<Rightarrow> client_item list \<Rightarrow>
     (order_error + orderItem list) \<times> (object_id \<rightharpoonup> product)" where
  "dbItems ps [] = (Inr [], ps)"
| "dbItems ps (itemFromClient # rest) =
     (case ps (client_product itemFromClient) of
        None \<Rightarrow> (Inl (ProductNotFound (client_product itemFromClient)), ps)
      | Some matchingItem \<Rightarrow>
          if inventory matchingItem < client_quantity itemFromClient
          then (Inl (NotEnoughStock (product_name matchingItem)), ps)
          else
            (let ps' = ps(client_product itemFromClient \<mapsto>
                           matchingItem\<lparr> inventory :=
                             inventory matchingItem - client_quantity itemFromClient \<rparr>)
             in case dbItems ps' rest of
                  (Inl e, ps'') \<Rightarrow> (Inl e, ps'')
                | (Inr items, ps'') \<Rightarrow>
                    (Inr (\<lparr> oi_name = product_name matchingItem,
                            oi_quantity = client_quantity itemFromClient,
                            oi_image = product_image matchingItem,
                            oi_price = product_price matchingItem,
                            oi_product = client_product itemFromClient \<rparr> # items), ps'')))"

text \<open>
  The handler.  The Order model that the controller requires is not among the sources
  (the Order schema above is over \<^verbatim>\<open>Item\<close> documents), so what its \<^verbatim>\<open>save()\<close> does to
  a new document (validation and hooks) is the parameter \<open>Order_save\<close>: the document as
  stored, or \<^term>\<open>None\<close> when it is rejected.  The hook above, as a model that accepts
  every document, is an example of such a function.
\<close>

definition createOrder ::
  "(order \<Rightarrow> order option) \<Rightarrow> shop \<Rightarrow> object_id \<Rightarrow> order_request \<Rightarrow>
     (order_error + order) \<times> shop" where
  "createOrder Order_save s user body =
     (case req_orderItems body of
        None \<Rightarrow> (Inl OrderItemsUndefined, s)
      | Some items \<Rightarrow>
          if length items = 0 then (Inl NoOrderItems, s)
          else
            (case dbItems (Products s) items of
               (Inl e, ps) \<Rightarrow> (Inl e, s\<lparr> Products := ps \<rparr>)
             | (Inr lines, ps) \<Rightarrow>
                 (let order = \<lparr> orderItems = lines,
                                order_user = user,
                                shippingAddress = req_shippingAddress body,
                                paymentMethod = req_paymentMethod body,
                                itemsPrice = req_itemsPrice body,
                                taxPrice = req_taxPrice body,
                                shippingPrice = req_shippingPrice body,
                                order_totalPrice = req_totalPrice body \<rparr>
                  in case Order_save order of
                       None \<Rightarrow> (Inl OrderRejected, s\<lparr> Products := ps \<rparr>)
                     | Some createdOrder \<Rightarrow>
                         (Inr createdOrder,
                          s\<lparr> Products := ps, Orders := Orders s @ [createdOrder] \<rparr>))))"

subsection \<open>Reading orders\<close>

definition getMyOrders :: "shop \<Rightarrow> object_id \<Rightarrow> order list" where
  "getMyOrders s user = filter (\<lambda>row. order_user row = user) (Orders s)"

definition getOrderById :: "shop \<Rightarrow> object_id \<Rightarrow> bool \<Rightarrow> nat \<Rightarrow> order_error + order" where
  "getOrderById s user is_admin order_id =
     (if order_id < length (Orders s)
      then (let order = Orders s ! order_id
            in if order_user order \<noteq> user \<and> \<not> is_admin then Inl NotAuthorized
               else Inr order)
      else Inl OrderNotFound)"

section \<open>Sequences of calls and auxiliary notions\<close>




text \<open>
  What a handler of the Item cart may do to the store: nothing, or one write of a cart of
  the caller that passed validation and the hook.
\<close>

definition wrote :: "store \<Rightarrow> object_id \<Rightarrow> store \<Rightarrow> bool" where
  "wrote s user s' \<longleftrightarrow>
     s' = s \<or> (\<exists>c. validate_cart c \<and> s' = s\<lparr> Carts := (Carts s)(user \<mapsto> pre_save c) \<rparr>)"


text \<open>
  What happens to the tables of the Go back end after a checkout: calls of the two
  handlers by any user, and changes of the catalog.  Likewise for the orders of the Product
  back end: further orders and changes of the catalog.
\<close>

datatype db_event =
    AddToCart_called faults nat nat "64 word"
  | CreateOrder_called faults nat nat
  | Items_changed "Item list"

fun db_after :: "db \<Rightarrow> db_event \<Rightarrow> db" where
  "db_after d (AddToCart_called f user item_id quantity) = snd (AddToCart f d user item_id quantity)"
| "db_after d (CreateOrder_called f now user) = snd (CreateOrder f now d user)"
| "db_after d (Items_changed catalog) = d\<lparr> tbl_items := catalog \<rparr>"

definition db_later :: "db \<Rightarrow> db_event list \<Rightarrow> db" where
  "db_later d events = foldl db_after d events"

datatype shop_event =
    createOrder_called "order \<Rightarrow> order option" object_id order_request
  | Products_changed "object_id \<rightharpoonup> product"

fun shop_after :: "shop \<Rightarrow> shop_event \<Rightarrow> shop" where
  "shop_after s (createOrder_called Order_save user body) = snd (createOrder Order_save s user body)"
| "shop_after s (Products_changed catalog) = s\<lparr> Products := catalog \<rparr>"

definition shop_later :: "shop \<Rightarrow> shop_event list \<Rightarrow> shop" where
  "shop_later s events = foldl shop_after s events"



text \<open>
  What a checkout leaves behind for the order it created, and what the later calls keep:
  the row of the order, a row for its cart, every row for that cart checked out, the
  lines of that cart, and distinct keys of the lines.
\<close>

definition checked_out :: "Order \<Rightarrow> CartItem list \<Rightarrow> db \<Rightarrow> bool" where
  "checked_out order lines D \<longleftrightarrow>
     order \<in> set (tbl_orders D) \<and>
     Order_CartID order \<in> set (map Cart_ID (tbl_carts D)) \<and>
     (\<forall>c\<in>set (tbl_carts D). Cart_ID c = Order_CartID order \<longrightarrow> IsCheckedOut c) \<and>
     filter (\<lambda>ci. CartItem_CartID ci = Order_CartID order) (tbl_cart_items D) = lines \<and>
     distinct (map CartItem_ID (tbl_cart_items D))"

section \<open>Example stores\<close>

subsection \<open>An Item cart with a line whose item is sold out\<close>

definition shelf :: "object_id \<rightharpoonup> item" where
  "shelf = [1 \<mapsto> \<lparr> item_name = ''pen'', item_image = ''pen.jpg'', item_price = 10, countInStock = 5 \<rparr>,
            2 \<mapsto> \<lparr> item_name = ''ink'', item_image = ''ink.jpg'', item_price = 4, countInStock = 0 \<rparr>]"

definition pen_line :: cartItem where
  "pen_line = \<lparr> ci_item = 1, ci_name = ''pen'', ci_image = ''pen.jpg'', ci_price = 10, ci_quantity = 2 \<rparr>"

definition ink_line :: cartItem where
  "ink_line = \<lparr> ci_item = 2, ci_name = ''ink'', ci_image = ''ink.jpg'', ci_price = 4, ci_quantity = 1 \<rparr>"

definition sold_out_store :: store where
  "sold_out_store =
     \<lparr> Items = shelf,
       Carts = [7 \<mapsto> \<lparr> cart_items = [pen_line, ink_line], totalPrice = 24, totalItems = 3 \<rparr>] \<rparr>"

subsection \<open>Further stores\<close>

definition desk_store :: store where
  "desk_store =
     \<lparr> Items = [1 \<mapsto> \<lparr> item_name = ''pen'', item_image = ''pen.jpg'', item_price = 12, countInStock = 9 \<rparr>,
                3 \<mapsto> \<lparr> item_name = ''cap'', item_image = ''cap.jpg'', item_price = 2, countInStock = 4 \<rparr>],
       Carts = [7 \<mapsto> \<lparr> cart_items = [pen_line], totalPrice = 20, totalItems = 2 \<rparr>] \<rparr>"

definition no_faults :: faults where
  "no_faults = \<lparr> fail_first = False, fail_item = False, fail_lookup = False,
                 fail_create = False, fail_save = False, fail_commit = False \<rparr>"

definition pen_db :: db where
  "pen_db =
     \<lparr> tbl_items = [\<lparr> Item_ID = 1, Item_Name = ''pen'', Item_Description = ''a pen'', Item_Price = 10 \<rparr>],
       tbl_carts = [\<lparr> Cart_ID = 1, Cart_UserID = 7, IsCheckedOut = False, CheckedOutAt = None \<rparr>],
       tbl_cart_items = [\<lparr> CartItem_ID = 1, CartItem_CartID = 1, CartItem_ItemID = 1, Quantity = 2 \<rparr>],
       tbl_orders = [] \<rparr>"

definition pen_shop :: shop where
  "pen_shop =
     \<lparr> Products = [1 \<mapsto> \<lparr> product_name = ''pen'', product_image = ''pen.jpg'',
                            product_price = 10, inventory = 15 \<rparr>],
       ProductCarts = Map.empty,
       Orders = [] \<rparr>"

definition pen_request :: order_request where
  "pen_request =
     \<lparr> req_orderItems = Some [\<lparr> client_product = 1, client_quantity = 2 \<rparr>],
       req_shippingAddress = ''1 Main Street'', req_paymentMethod = ''PayPal'',
       req_itemsPrice = 0, req_taxPrice = 0, req_shippingPrice = 0, req_totalPrice = 0 \<rparr>"








section \<open>Facts about the helper functions\<close>

text \<open>
  Two amounts on which binary64 arithmetic and exact arithmetic differ: three times 0.1 is
  not 0.3, and the tenth of 1.15 rounds to 0.11 where the exact 0.115 would round to 0.12.
\<close>

lemma binary64_examples:
  "fmul (1 / 10) 3 = 5404319552844596 / 18014398509481984"
  "fmul (1 / 10) 3 \<noteq> fl (3 / 10)"
  "toFixed2 (fmul (115 / 100) (1 / 10)) = fl (11 / 100)"
  by code_simp+

lemma tax_examples:
  "toFixed2 (fmul 20 (1 / 10)) = 2" "toFixed2 (fmul (1 / 10) 20) = 2"
  by code_simp+









lemma in_inventory_iff:
  "in_inventory s ci \<longleftrightarrow> (\<exists>it. Items s (ci_item ci) = Some it \<and> countInStock it \<noteq> 0)"
  by (auto simp: in_inventory_def split: option.splits)

lemma filter_shorter:
  "\<exists>x\<in>set xs. \<not> P x \<Longrightarrow> length (filter P xs) \<noteq> length xs"
  by (metis filter_id_conv length_filter_le le_antisym length_filter_less less_irrefl)


lemma save_and_respond_wrote: "wrote s user (snd (save_and_respond s user c))"
  by (auto simp: wrote_def save_and_respond_def save_def Let_def)

lemma wrote_refl: "wrote s user s"
  by (simp add: wrote_def)

lemma getCart_wrote: "wrote s user (snd (getCart s user))"
  by (simp add: getCart_def Let_def save_and_respond_wrote wrote_refl split: option.splits)

lemma addItemToCart_wrote: "wrote s user (snd (addItemToCart s user itemId q))"
  by (simp add: addItemToCart_def Let_def save_and_respond_wrote wrote_refl split: option.splits)

lemma updateCartItem_wrote: "wrote s user (snd (updateCartItem s user itemId q))"
  by (simp add: updateCartItem_def Let_def save_and_respond_wrote wrote_refl split: option.splits)

lemma removeItemFromCart_wrote: "wrote s user (snd (removeItemFromCart s user itemId))"
  by (simp add: removeItemFromCart_def Let_def save_and_respond_wrote wrote_refl split: option.splits)

lemma clearCart_wrote: "wrote s user (snd (clearCart s user))"
  by (auto simp: clearCart_def wrote_def save_def Let_def split: option.splits)



lemma validate_cart_filter:
  "validate_cart c \<Longrightarrow> validate_cart (c\<lparr> cart_items := filter P (cart_items c) \<rparr>)"
  by (simp add: validate_cart_def list_all_iff)


















subsection \<open>The Go handlers\<close>

lemma CreateOrder_cases:
  "CreateOrder f now d u =
     (if fail_first f then (Inl (InternalServerError ''failed to process order''), d)
      else case first_open_cart d u of
        None \<Rightarrow> (Inl (BadRequest ''no active cart found''), d)
      | Some cart \<Rightarrow>
          if preload_CartItems d (Cart_ID cart) = [] then (Inl (BadRequest ''cart is empty''), d)
          else if fail_create f then (Inl (InternalServerError ''failed to create order''), d)
          else if fail_save f then (Inl (InternalServerError ''failed to update cart status''), d)
          else if fail_commit f then (Inl (InternalServerError ''failed to process order''), d)
          else (Inr (next_id (map Order_ID (tbl_orders d))),
                d\<lparr> tbl_orders := tbl_orders d @
                     [\<lparr> Order_ID = next_id (map Order_ID (tbl_orders d)),
                        Order_CreatedAt = now,
                        Order_UserID = u,
                        Order_CartID = Cart_ID cart,
                        Total = foldl (\<lambda>total (item, it).
                                         fadd total
                                           (fmul (Item_Price it) (of_int (sint (Quantity item)))))
                                  0 (preload_CartItems d (Cart_ID cart)),
                        Status = ''completed'' \<rparr>],
                   tbl_carts := map (\<lambda>c. if Cart_ID c = Cart_ID cart
                                         then cart\<lparr> IsCheckedOut := True, CheckedOutAt := Some now \<rparr>
                                         else c) (tbl_carts d) \<rparr>))"
  by (simp add: CreateOrder_def Begin_def Rollback_def Commit_def Let_def split: option.splits)

lemma CreateOrder_items: "tbl_items (snd (CreateOrder f now d u)) = tbl_items d"
  by (simp add: CreateOrder_cases split: option.splits)

lemma AddToCart_items: "tbl_items (snd (AddToCart f d u item_id q)) = tbl_items d"
  by (simp add: AddToCart_def Begin_def Rollback_def Commit_def Let_def
      split: option.splits prod.splits)

lemma preload_CartItems_total:
  "foldl (\<lambda>total (item, it). fadd total (fmul (Item_Price it) (of_int (sint (Quantity item)))))
     a (preload_CartItems d cid) =
   foldl (\<lambda>total ci.
            fadd total
              (fmul (case find (\<lambda>i. Item_ID i = CartItem_ItemID ci) (tbl_items d) of
                       Some i \<Rightarrow> Item_Price i | None \<Rightarrow> 0)
                 (of_int (sint (Quantity ci)))))
     a (filter (\<lambda>ci. CartItem_CartID ci = cid) (tbl_cart_items d))"
proof -
  have "(\<lambda>total ci. fadd total (fmul (Item_Price (preload_Item d ci)) (of_int (sint (Quantity ci))))) =
      (\<lambda>total ci.
         fadd total
           (fmul (case find (\<lambda>i. Item_ID i = CartItem_ItemID ci) (tbl_items d) of
                    Some i \<Rightarrow> Item_Price i | None \<Rightarrow> 0)
              (of_int (sint (Quantity ci)))))"
    by (auto simp: preload_Item_def zero_Item_def fun_eq_iff split: option.splits)
  then show ?thesis
    by (simp add: preload_CartItems_def foldl_map)
qed

lemma CreateOrder_Inr:
  assumes "CreateOrder f now d u = (Inr oid, d')"
  obtains cart where "first_open_cart d u = Some cart"
    and "oid = next_id (map Order_ID (tbl_orders d))"
    and "d' = d\<lparr> tbl_orders := tbl_orders d @
                     [\<lparr> Order_ID = oid,
                        Order_CreatedAt = now,
                        Order_UserID = u,
                        Order_CartID = Cart_ID cart,
                        Total = foldl (\<lambda>total (item, it).
                                         fadd total
                                           (fmul (Item_Price it) (of_int (sint (Quantity item)))))
                                  0 (preload_CartItems d (Cart_ID cart)),
                        Status = ''completed'' \<rparr>],
                   tbl_carts := map (\<lambda>c. if Cart_ID c = Cart_ID cart
                                         then cart\<lparr> IsCheckedOut := True, CheckedOutAt := Some now \<rparr>
                                         else c) (tbl_carts d) \<rparr>"
  using assms by (auto simp: CreateOrder_cases split: if_splits option.splits)

lemma first_open_cart_Some:
  "first_open_cart d u = Some cart \<Longrightarrow>
   cart \<in> set (tbl_carts d) \<and> Cart_UserID cart = u \<and> \<not> IsCheckedOut cart"
  by (auto simp: first_open_cart_def find_Some_iff)

lemma find_map_same_key:
  assumes "\<And>x. P (g x) = P x"
  shows "find P (map g xs) = map_option g (find P xs)"
  using assms by (induction xs) simp_all

lemma find_in_set: "x \<in> set xs \<Longrightarrow> P x \<Longrightarrow> \<exists>y. find P xs = Some y \<and> P y"
  by (induction xs) auto

lemma filter_map_unchanged:
  assumes "\<And>x. x \<in> set xs \<Longrightarrow> P (g x) = P x \<and> (P x \<longrightarrow> g x = x)"
  shows "filter P (map g xs) = filter P xs"
  using assms by (induction xs) auto

lemma AddToCart_line:
  assumes ok: "AddToCart f d u item_id q = (Inr cid, d')"
  shows "case find (\<lambda>ci. CartItem_CartID ci = cid \<and> CartItem_ItemID ci = item_id)
                (tbl_cart_items d) of
           Some line \<Rightarrow>
             tbl_cart_items d' =
               map (\<lambda>ci. if CartItem_ID ci = CartItem_ID line
                         then line\<lparr> Quantity := Quantity line + q \<rparr> else ci)
                 (tbl_cart_items d)
         | None \<Rightarrow>
             tbl_cart_items d' =
               tbl_cart_items d @
                 [\<lparr> CartItem_ID = next_id (map CartItem_ID (tbl_cart_items d)),
                    CartItem_CartID = cid, CartItem_ItemID = item_id, Quantity = q \<rparr>]"
  using ok
  by (auto simp: AddToCart_def Begin_def Rollback_def Commit_def Let_def
      split: if_splits option.splits prod.splits)

lemma next_id_fresh: "x \<in> set ids \<Longrightarrow> x < next_id ids"
  unfolding next_id_def by (induction ids) auto


lemma AddToCart_Inl: "AddToCart f d u item_id q = (Inl e, d') \<Longrightarrow> d' = d"
  by (auto simp: AddToCart_def Begin_def Rollback_def Commit_def Let_def
      split: if_splits option.splits prod.splits)

lemma AddToCart_carts:
  assumes "AddToCart f d u item_id q = (Inr cid, d')"
  shows "tbl_orders d' = tbl_orders d \<and>
         (case first_open_cart d u of
            Some c \<Rightarrow> cid = Cart_ID c \<and> tbl_carts d' = tbl_carts d
          | None \<Rightarrow>
              cid = next_id (map Cart_ID (tbl_carts d)) \<and>
              tbl_carts d' =
                tbl_carts d @ [\<lparr> Cart_ID = cid, Cart_UserID = u, IsCheckedOut = False,
                                 CheckedOutAt = None \<rparr>])"
  using assms
  by (auto simp: AddToCart_def Begin_def Rollback_def Commit_def Let_def
      split: if_splits option.splits prod.splits)

lemma Cart_ID_map_checked_out:
  "map Cart_ID (map (\<lambda>c. if Cart_ID c = Cart_ID cart
                          then cart\<lparr> IsCheckedOut := True, CheckedOutAt := t \<rparr> else c) cs) =
   map Cart_ID cs"
  by (induction cs) auto

lemma checked_outI:
  assumes "order \<in> set (tbl_orders D)"
    and "Order_CartID order \<in> set (map Cart_ID (tbl_carts D))"
    and "\<forall>c\<in>set (tbl_carts D). Cart_ID c = Order_CartID order \<longrightarrow> IsCheckedOut c"
    and "filter (\<lambda>ci. CartItem_CartID ci = Order_CartID order) (tbl_cart_items D) = lines"
    and "distinct (map CartItem_ID (tbl_cart_items D))"
  shows "checked_out order lines D"
  unfolding checked_out_def using assms by (intro conjI)

lemma checked_outD:
  assumes "checked_out order lines D"
  shows "order \<in> set (tbl_orders D)"
    and "Order_CartID order \<in> set (map Cart_ID (tbl_carts D))"
    and "\<forall>c\<in>set (tbl_carts D). Cart_ID c = Order_CartID order \<longrightarrow> IsCheckedOut c"
    and "filter (\<lambda>ci. CartItem_CartID ci = Order_CartID order) (tbl_cart_items D) = lines"
    and "distinct (map CartItem_ID (tbl_cart_items D))"
  using assms unfolding checked_out_def by blast+

lemma checked_out_AddToCart:
  assumes inv: "checked_out order lines D"
  shows "checked_out order lines (snd (AddToCart f D u item_id q))"
proof (cases "AddToCart f D u item_id q")
  case (Pair r D')
  show ?thesis
  proof (cases r)
    case (Inl e)
    with Pair AddToCart_Inl [of f D u item_id q e D'] inv show ?thesis
      by simp
  next
    case (Inr cid)
    with Pair have ok: "AddToCart f D u item_id q = (Inr cid, D')"
      by simp
    let ?cid = "Order_CartID order"
    note order = checked_outD(1) [OF inv] and row = checked_outD(2) [OF inv]
      and closed = checked_outD(3) [OF inv] and lines = checked_outD(4) [OF inv]
      and keys = checked_outD(5) [OF inv]
    from AddToCart_carts [OF ok] have orders: "tbl_orders D' = tbl_orders D"
      by simp
    have other: "cid \<noteq> ?cid" and carts: "set (tbl_carts D) \<subseteq> set (tbl_carts D')"
      and closed': "\<forall>c\<in>set (tbl_carts D'). Cart_ID c = ?cid \<longrightarrow> IsCheckedOut c"
    proof -
      show "cid \<noteq> ?cid"
      proof (cases "first_open_cart D u")
        case None
        with AddToCart_carts [OF ok] have "cid = next_id (map Cart_ID (tbl_carts D))"
          by simp
        moreover from next_id_fresh [OF row] have "?cid < next_id (map Cart_ID (tbl_carts D))" .
        ultimately show ?thesis
          by simp
      next
        case (Some c)
        with AddToCart_carts [OF ok] have "cid = Cart_ID c"
          by simp
        with first_open_cart_Some [OF Some] closed show ?thesis
          by auto
      qed
      then show "\<forall>c\<in>set (tbl_carts D'). Cart_ID c = ?cid \<longrightarrow> IsCheckedOut c"
        using AddToCart_carts [OF ok] closed by (auto split: option.splits)
      show "set (tbl_carts D) \<subseteq> set (tbl_carts D')"
        using AddToCart_carts [OF ok] by (auto split: option.splits)
    qed
    have "filter (\<lambda>ci. CartItem_CartID ci = ?cid) (tbl_cart_items D') = lines \<and>
        distinct (map CartItem_ID (tbl_cart_items D'))"
    proof (cases "find (\<lambda>ci. CartItem_CartID ci = cid \<and> CartItem_ItemID ci = item_id)
                    (tbl_cart_items D)")
      case None
      with AddToCart_line [OF ok]
      have D': "tbl_cart_items D' = tbl_cart_items D @
          [\<lparr> CartItem_ID = next_id (map CartItem_ID (tbl_cart_items D)),
             CartItem_CartID = cid, CartItem_ItemID = item_id, Quantity = q \<rparr>]"
        by simp
      have "next_id (map CartItem_ID (tbl_cart_items D)) \<notin> set (map CartItem_ID (tbl_cart_items D))"
        using next_id_fresh [of "next_id (map CartItem_ID (tbl_cart_items D))"
            "map CartItem_ID (tbl_cart_items D)"]
        by auto
      with other lines keys show ?thesis
        unfolding D' by simp
    next
      case (Some line)
      let ?g = "\<lambda>ci. if CartItem_ID ci = CartItem_ID line
                     then line\<lparr> Quantity := Quantity line + q \<rparr> else ci"
      from Some AddToCart_line [OF ok]
      have D': "tbl_cart_items D' = map ?g (tbl_cart_items D)"
        by simp
      from Some have line: "line \<in> set (tbl_cart_items D)" "CartItem_CartID line = cid"
        by (auto simp: find_Some_iff)
      have same: "ci = line"
        if "ci \<in> set (tbl_cart_items D)" "CartItem_ID ci = CartItem_ID line" for ci
        using keys that line by (auto simp: distinct_map dest: inj_onD)
      have ids: "map CartItem_ID (map ?g (tbl_cart_items D)) = map CartItem_ID (tbl_cart_items D)"
        by (simp add: comp_def if_distrib [of CartItem_ID] cong: if_cong)
      have "filter (\<lambda>ci. CartItem_CartID ci = ?cid) (map ?g (tbl_cart_items D)) =
          filter (\<lambda>ci. CartItem_CartID ci = ?cid) (tbl_cart_items D)"
      proof (rule filter_map_unchanged)
        fix ci
        assume "ci \<in> set (tbl_cart_items D)"
        from same [OF this] line(2) other
        show "(CartItem_CartID (?g ci) = ?cid) = (CartItem_CartID ci = ?cid) \<and>
            (CartItem_CartID ci = ?cid \<longrightarrow> ?g ci = ci)"
          by auto
      qed
      with lines keys show ?thesis
        by (simp only: D' ids)
    qed
    then have lines': "filter (\<lambda>ci. CartItem_CartID ci = ?cid) (tbl_cart_items D') = lines"
      and keys': "distinct (map CartItem_ID (tbl_cart_items D'))"
      by simp_all
    from order orders have order': "order \<in> set (tbl_orders D')"
      by simp
    from row carts have row': "?cid \<in> set (map Cart_ID (tbl_carts D'))"
      by auto
    from Pair have "snd (AddToCart f D u item_id q) = D'"
      by simp
    with checked_outI [OF order' row' closed' lines' keys'] show ?thesis
      by simp
  qed
qed

lemma checked_out_CreateOrder:
  assumes inv: "checked_out order lines D"
  shows "checked_out order lines (snd (CreateOrder f now D u))"
proof (cases "CreateOrder f now D u")
  case (Pair r D')
  show ?thesis
  proof (cases r)
    case (Inl e)
    with Pair have "D' = D"
      by (auto simp: CreateOrder_cases split: if_splits option.splits)
    with Pair inv show ?thesis
      by simp
  next
    case (Inr oid)
    with Pair have "CreateOrder f now D u = (Inr oid, D')"
      by simp
    then obtain cart where cart: "first_open_cart D u = Some cart"
      and carts: "tbl_carts D' =
          map (\<lambda>c. if Cart_ID c = Cart_ID cart
                   then cart\<lparr> IsCheckedOut := True, CheckedOutAt := Some now \<rparr> else c)
            (tbl_carts D)"
      and orders: "set (tbl_orders D) \<subseteq> set (tbl_orders D')"
      and lines: "tbl_cart_items D' = tbl_cart_items D"
      by (rule CreateOrder_Inr) auto
    from carts have ids: "map Cart_ID (tbl_carts D') = map Cart_ID (tbl_carts D)"
      by (simp only: Cart_ID_map_checked_out)
    from checked_outD(3) [OF inv] carts
    have closed': "\<forall>c\<in>set (tbl_carts D'). Cart_ID c = Order_CartID order \<longrightarrow> IsCheckedOut c"
      by auto
    from checked_outD(2) [OF inv] have row': "Order_CartID order \<in> set (map Cart_ID (tbl_carts D'))"
      by (simp only: ids)
    from checked_outD(1) [OF inv] orders have order': "order \<in> set (tbl_orders D')"
      by auto
    from checked_outD(4,5) [OF inv] lines
    have lines': "filter (\<lambda>ci. CartItem_CartID ci = Order_CartID order) (tbl_cart_items D') = lines"
      and keys': "distinct (map CartItem_ID (tbl_cart_items D'))"
      by simp_all
    from Pair have "snd (CreateOrder f now D u) = D'"
      by simp
    with checked_outI [OF order' row' closed' lines' keys'] show ?thesis
      by simp
  qed
qed

lemma checked_out_later:
  assumes "checked_out order lines D"
  shows "checked_out order lines (db_later D events)"
  using assms unfolding db_later_def
proof (induction events arbitrary: D)
  case Nil
  then show ?case by simp
next
  case (Cons e events)
  have "checked_out order lines (db_after D e)"
  proof (cases e)
    case (AddToCart_called f user item_id quantity)
    with checked_out_AddToCart [OF Cons.prems] show ?thesis by simp
  next
    case (CreateOrder_called f now user)
    with checked_out_CreateOrder [OF Cons.prems] show ?thesis by simp
  next
    case (Items_changed catalog)
    with Cons.prems show ?thesis by (simp add: checked_out_def)
  qed
  from Cons.IH [OF this] show ?case
    by simp
qed

lemma checked_out_after_CreateOrder:
  assumes ok: "CreateOrder f now d u = (Inr oid, d')"
    and keys: "distinct (map CartItem_ID (tbl_cart_items d))"
  shows "\<exists>cart order.
           first_open_cart d u = Some cart \<and>
           Order_ID order = oid \<and> Order_UserID order = u \<and> Order_CartID order = Cart_ID cart \<and>
           Total order =
             foldl (\<lambda>total ci.
                      fadd total
                        (fmul (case find (\<lambda>i. Item_ID i = CartItem_ItemID ci) (tbl_items d) of
                                 Some i \<Rightarrow> Item_Price i | None \<Rightarrow> 0)
                           (of_int (sint (Quantity ci)))))
               0 (filter (\<lambda>ci. CartItem_CartID ci = Cart_ID cart) (tbl_cart_items d)) \<and>
           checked_out order
             (filter (\<lambda>ci. CartItem_CartID ci = Cart_ID cart) (tbl_cart_items d)) d'"
proof -
  from ok obtain cart where cart: "first_open_cart d u = Some cart"
    and d': "d' = d\<lparr> tbl_orders := tbl_orders d @
                     [\<lparr> Order_ID = oid,
                        Order_CreatedAt = now,
                        Order_UserID = u,
                        Order_CartID = Cart_ID cart,
                        Total = foldl (\<lambda>total (item, it).
                                         fadd total
                                           (fmul (Item_Price it) (of_int (sint (Quantity item)))))
                                  0 (preload_CartItems d (Cart_ID cart)),
                        Status = ''completed'' \<rparr>],
                   tbl_carts := map (\<lambda>c. if Cart_ID c = Cart_ID cart
                                         then cart\<lparr> IsCheckedOut := True, CheckedOutAt := Some now \<rparr>
                                         else c) (tbl_carts d) \<rparr>"
    by (rule CreateOrder_Inr)
  let ?order = "\<lparr> Order_ID = oid, Order_CreatedAt = now, Order_UserID = u,
                   Order_CartID = Cart_ID cart,
                   Total = foldl (\<lambda>total (item, it).
                                    fadd total
                                      (fmul (Item_Price it) (of_int (sint (Quantity item)))))
                             0 (preload_CartItems d (Cart_ID cart)),
                   Status = ''completed'' \<rparr>"
  from first_open_cart_Some [OF cart] have "Cart_ID cart \<in> set (map Cart_ID (tbl_carts d))"
    by simp
  moreover have "map Cart_ID (tbl_carts d') = map Cart_ID (tbl_carts d)"
    unfolding d' using Cart_ID_map_checked_out [of cart "Some now" "tbl_carts d"] by simp
  ultimately have "Order_CartID ?order \<in> set (map Cart_ID (tbl_carts d'))"
    by (simp del: set_map map_map)
  moreover have "\<forall>c\<in>set (tbl_carts d'). Cart_ID c = Order_CartID ?order \<longrightarrow> IsCheckedOut c"
    unfolding d' by auto
  moreover have "?order \<in> set (tbl_orders d')"
    unfolding d' by simp
  moreover have "filter (\<lambda>ci. CartItem_CartID ci = Order_CartID ?order) (tbl_cart_items d') =
      filter (\<lambda>ci. CartItem_CartID ci = Cart_ID cart) (tbl_cart_items d)"
    unfolding d' by simp
  moreover from keys have "distinct (map CartItem_ID (tbl_cart_items d'))"
    unfolding d' by simp
  ultimately have "checked_out ?order
      (filter (\<lambda>ci. CartItem_CartID ci = Cart_ID cart) (tbl_cart_items d)) d'"
    by (intro checked_outI)
  moreover have "Total ?order =
      foldl (\<lambda>total ci.
               fadd total
                 (fmul (case find (\<lambda>i. Item_ID i = CartItem_ItemID ci) (tbl_items d) of
                          Some i \<Rightarrow> Item_Price i | None \<Rightarrow> 0)
                    (of_int (sint (Quantity ci)))))
        0 (filter (\<lambda>ci. CartItem_CartID ci = Cart_ID cart) (tbl_cart_items d))"
    using preload_CartItems_total [of 0 d "Cart_ID cart"] by simp
  ultimately show ?thesis
    using cart by (intro exI [of _ cart] exI [of _ ?order]) simp
qed

lemma GetUserOrders_checked_out:
  assumes inv: "checked_out order lines D"
    and g: "\<not> fail_first g"
  shows "\<exists>json row.
           GetUserOrders g D (Order_UserID order) = Inr json \<and>
           row \<in> set json \<and>
           order_json_id row = Order_ID order \<and>
           order_json_total row = Total order \<and>
           map (\<lambda>l. (json_id l, json_quantity l)) (order_json_items row) =
             map (\<lambda>ci. (CartItem_ItemID ci, Quantity ci)) lines \<and>
           map json_price (order_json_items row) =
             map (\<lambda>ci. case find (\<lambda>i. Item_ID i = CartItem_ItemID ci) (tbl_items D) of
                         Some i \<Rightarrow> Item_Price i | None \<Rightarrow> 0) lines"
proof -
  define mk where "mk = (\<lambda>order.
               \<lparr> order_json_id = Order_ID order,
                 order_json_total = Total order,
                 order_json_status = Status order,
                 order_json_created_at = Order_CreatedAt order,
                 order_json_items =
                   map (\<lambda>(item, it).
                          \<lparr> json_id = CartItem_ItemID item,
                            json_name = Item_Name it,
                            json_description = Item_Description it,
                            json_price = Item_Price it,
                            json_quantity = Quantity item \<rparr>)
                     (preload_Cart_CartItems D order) \<rparr>)"
  let ?rows = "order_by_created_at_desc
                 (filter (\<lambda>row. Order_UserID row = Order_UserID order) (tbl_orders D))"
  have json: "GetUserOrders g D (Order_UserID order) = Inr (map mk ?rows)"
    using g by (simp add: GetUserOrders_def mk_def)
  from inv have "order \<in> set ?rows"
    by (simp add: order_by_created_at_desc_def checked_out_def)
  then have row: "mk order \<in> set (map mk ?rows)"
    by simp
  from inv obtain c where "c \<in> set (tbl_carts D)" "Cart_ID c = Order_CartID order"
    by (auto simp: checked_out_def)
  from find_in_set [of c "tbl_carts D" "\<lambda>c. Cart_ID c = Order_CartID order", OF this]
  obtain y where "find (\<lambda>c. Cart_ID c = Order_CartID order) (tbl_carts D) = Some y"
    and "Cart_ID y = Order_CartID order"
    by auto
  with inv have pre: "preload_Cart_CartItems D order =
      map (\<lambda>ci. (ci, case find (\<lambda>i. Item_ID i = CartItem_ItemID ci) (tbl_items D) of
                        Some i \<Rightarrow> i | None \<Rightarrow> zero_Item)) lines"
    by (simp add: preload_Cart_CartItems_def preload_CartItems_def preload_Item_def
        checked_out_def)
  have items: "order_json_items (mk order) =
      map (\<lambda>(item, it).
             \<lparr> json_id = CartItem_ItemID item,
               json_name = Item_Name it,
               json_description = Item_Description it,
               json_price = Item_Price it,
               json_quantity = Quantity item \<rparr>)
        (preload_Cart_CartItems D order)"
    by (simp add: mk_def)
  have price: "map json_price (order_json_items (mk order)) =
      map (\<lambda>ci. case find (\<lambda>i. Item_ID i = CartItem_ItemID ci) (tbl_items D) of
                  Some i \<Rightarrow> Item_Price i | None \<Rightarrow> 0) lines"
    unfolding items pre by (auto simp: comp_def zero_Item_def split: option.splits)
  have qty: "map (\<lambda>l. (json_id l, json_quantity l)) (order_json_items (mk order)) =
      map (\<lambda>ci. (CartItem_ItemID ci, Quantity ci)) lines"
    unfolding items pre by (simp add: comp_def)
  have total: "order_json_total (mk order) = Total order"
    by (simp add: mk_def)
  have id: "order_json_id (mk order) = Order_ID order"
    by (simp add: mk_def)
  from json row id total qty price show ?thesis
    by blast
qed

lemma GetUserOrders_after_CreateOrder:
  assumes ok: "CreateOrder f now d u = (Inr oid, d')"
    and keys: "distinct (map CartItem_ID (tbl_cart_items d))"
    and g: "\<not> fail_first g"
  shows "\<exists>cart json row.
           first_open_cart d u = Some cart \<and>
           GetUserOrders g (db_later d' events) u = Inr json \<and>
           row \<in> set json \<and>
           order_json_id row = oid \<and>
           order_json_total row =
             foldl (\<lambda>total ci.
                      fadd total
                        (fmul (case find (\<lambda>i. Item_ID i = CartItem_ItemID ci) (tbl_items d) of
                                 Some i \<Rightarrow> Item_Price i | None \<Rightarrow> 0)
                           (of_int (sint (Quantity ci)))))
               0 (filter (\<lambda>ci. CartItem_CartID ci = Cart_ID cart) (tbl_cart_items d)) \<and>
           map (\<lambda>l. (json_id l, json_quantity l)) (order_json_items row) =
             map (\<lambda>ci. (CartItem_ItemID ci, Quantity ci))
               (filter (\<lambda>ci. CartItem_CartID ci = Cart_ID cart) (tbl_cart_items d)) \<and>
           map json_price (order_json_items row) =
             map (\<lambda>ci. case find (\<lambda>i. Item_ID i = CartItem_ItemID ci)
                               (tbl_items (db_later d' events)) of
                         Some i \<Rightarrow> Item_Price i | None \<Rightarrow> 0)
               (filter (\<lambda>ci. CartItem_CartID ci = Cart_ID cart) (tbl_cart_items d))"
proof -
  from checked_out_after_CreateOrder [OF ok keys]
  obtain cart order where cart: "first_open_cart d u = Some cart"
    and order: "Order_ID order = oid" "Order_UserID order = u"
    and total: "Total order =
             foldl (\<lambda>total ci.
                      fadd total
                        (fmul (case find (\<lambda>i. Item_ID i = CartItem_ItemID ci) (tbl_items d) of
                                 Some i \<Rightarrow> Item_Price i | None \<Rightarrow> 0)
                           (of_int (sint (Quantity ci)))))
               0 (filter (\<lambda>ci. CartItem_CartID ci = Cart_ID cart) (tbl_cart_items d))"
    and inv: "checked_out order
             (filter (\<lambda>ci. CartItem_CartID ci = Cart_ID cart) (tbl_cart_items d)) d'"
    by blast
  from GetUserOrders_checked_out [OF checked_out_later [OF inv] g, of events] cart order total
  show ?thesis
    by (intro exI [of _ cart]) simp
qed


subsection \<open>The order controller\<close>

lemma dbItems_frame:
  "map_option (\<lambda>p. p\<lparr> inventory := 0 \<rparr>) (snd (dbItems ps items) pid) =
   map_option (\<lambda>p. p\<lparr> inventory := 0 \<rparr>) (ps pid)"
proof (induction items arbitrary: ps)
  case Nil
  then show ?case by simp
next
  case (Cons a items)
  show ?case
  proof (cases "ps (client_product a)")
    case None
    then show ?thesis by simp
  next
    case (Some m)
    show ?thesis
    proof (cases "inventory m < client_quantity a")
      case True
      with Some show ?thesis by simp
    next
      case False
      let ?ps = "ps(client_product a \<mapsto> m\<lparr> inventory := inventory m - client_quantity a \<rparr>)"
      have step: "snd (dbItems ps (a # items)) = snd (dbItems ?ps items)"
        using Some False by (simp add: Let_def split: prod.splits sum.splits)
      have "map_option (\<lambda>p. p\<lparr> inventory := 0 \<rparr>) (?ps pid) =
          map_option (\<lambda>p. p\<lparr> inventory := 0 \<rparr>) (ps pid)"
        using Some by simp
      with Cons.IH [of ?ps] show ?thesis
        by (simp only: step)
    qed
  qed
qed


lemma dbItems_inventory:
  assumes "dbItems ps items = (Inr lines, ps')" and "ps pid = Some p"
  shows "ps' pid = Some (p\<lparr> inventory := inventory p -
           (\<Sum>i\<leftarrow>filter (\<lambda>i. client_product i = pid) items. client_quantity i) \<rparr>)"
  using assms
proof (induction items arbitrary: ps lines p)
  case Nil
  then show ?case by simp
next
  case (Cons a items)
  from Cons.prems obtain m where m: "ps (client_product a) = Some m"
    by (auto split: option.splits)
  with Cons.prems have enough: "\<not> inventory m < client_quantity a"
    by (auto split: if_splits)
  let ?ps = "ps(client_product a \<mapsto> m\<lparr> inventory := inventory m - client_quantity a \<rparr>)"
  from Cons.prems m enough obtain ls where ls: "dbItems ?ps items = (Inr ls, ps')"
    by (auto simp: Let_def split: prod.splits sum.splits)
  show ?case
  proof (cases "client_product a = pid")
    case True
    with m Cons.prems(2) have "?ps pid = Some (p\<lparr> inventory := inventory p - client_quantity a \<rparr>)"
      by simp
    from Cons.IH [OF ls this] True show ?thesis
      by (simp add: algebra_simps)
  next
    case False
    with Cons.prems(2) have "?ps pid = Some p"
      by simp
    from Cons.IH [OF ls this] False show ?thesis
      by simp
  qed
qed

lemma createOrder_Products:
  "Products (snd (createOrder h s u body)) = Products s \<or>
   (\<exists>items. req_orderItems body = Some items \<and>
      Products (snd (createOrder h s u body)) = snd (dbItems (Products s) items))"
  by (auto simp: createOrder_def Let_def split: option.splits prod.splits sum.splits)

lemma createOrder_frame:
  "map_option (\<lambda>p. p\<lparr> inventory := 0 \<rparr>) (Products (snd (createOrder h s u body)) pid) =
   map_option (\<lambda>p. p\<lparr> inventory := 0 \<rparr>) (Products s pid)"
  using createOrder_Products [of h s u body] dbItems_frame [of "Products s" _ pid]
  by auto

lemma createOrder_Inr:
  assumes "createOrder h s u body = (Inr created, s')"
  obtains items lines ps where "req_orderItems body = Some items" and "items \<noteq> []"
    and "dbItems (Products s) items = (Inr lines, ps)"
    and "h \<lparr> orderItems = lines, order_user = u,
              shippingAddress = req_shippingAddress body,
              paymentMethod = req_paymentMethod body,
              itemsPrice = req_itemsPrice body,
              taxPrice = req_taxPrice body,
              shippingPrice = req_shippingPrice body,
              order_totalPrice = req_totalPrice body \<rparr> = Some created"
    and "s' = s\<lparr> Products := ps, Orders := Orders s @ [created] \<rparr>"
  using assms
  by (auto simp: createOrder_def Let_def split: option.splits prod.splits sum.splits if_splits)

lemma calculateTotals_Products:
  "calculateTotals s user items_modified this = Some (c, s') \<Longrightarrow> Products s' = Products s"
  by (auto simp: calculateTotals_def product_cart_save_def Let_def split: if_splits)

subsection \<open>The example stores\<close>

lemma wrote_Items: "wrote s user s' \<Longrightarrow> Items s' = Items s"
  by (auto simp: wrote_def)

lemma float_examples:
  "fmul 10 2 = 20" "fmul 12 2 = 24" "fmul 10 5 = 50" "fmul 10 3 = 30"
  "fadd 0 20 = 20" "fadd 0 24 = 24" "fadd 0 50 = 50" "fadd 0 30 = 30"
  "fadd 20 10 = 30" "fadd 30 2 = 32" "toFixed2 (fadd 20 2) = 22"
  by code_simp+

lemma CreateOrder_pen_db:
  "CreateOrder no_faults 100 pen_db 7 =
     (Inr 1,
      pen_db\<lparr> tbl_orders := [\<lparr> Order_ID = 1, Order_CreatedAt = 100, Order_UserID = 7,
                                 Order_CartID = 1, Total = 20, Status = ''completed'' \<rparr>],
               tbl_carts := [\<lparr> Cart_ID = 1, Cart_UserID = 7, IsCheckedOut = True,
                               CheckedOutAt = Some 100 \<rparr>] \<rparr>)"
  by (simp add: CreateOrder_def no_faults_def pen_db_def Begin_def Commit_def Rollback_def
      first_open_cart_def preload_CartItems_def preload_Item_def next_id_def Let_def
      float_examples)






lemma createOrder_pen_shop:
  "createOrder (\<lambda>order. Some (order_pre_save order)) pen_shop 7 pen_request =
     (Inr \<lparr> orderItems = [\<lparr> oi_name = ''pen'', oi_quantity = 2, oi_image = ''pen.jpg'',
                               oi_price = 10, oi_product = 1 \<rparr>],
            order_user = 7, shippingAddress = ''1 Main Street'', paymentMethod = ''PayPal'',
            itemsPrice = 20, taxPrice = 2, shippingPrice = 10, order_totalPrice = 32 \<rparr>,
      pen_shop\<lparr> Products := [1 \<mapsto> \<lparr> product_name = ''pen'', product_image = ''pen.jpg'',
                                       product_price = 10, inventory = 13 \<rparr>],
                Orders := [\<lparr> orderItems = [\<lparr> oi_name = ''pen'', oi_quantity = 2,
                                               oi_image = ''pen.jpg'', oi_price = 10,
                                               oi_product = 1 \<rparr>],
                            order_user = 7, shippingAddress = ''1 Main Street'',
                            paymentMethod = ''PayPal'', itemsPrice = 20, taxPrice = 2,
                            shippingPrice = 10, order_totalPrice = 32 \<rparr>] \<rparr>)"
  by (simp add: createOrder_def pen_shop_def pen_request_def order_pre_save_def
      tax_examples float_examples Let_def)

lemma createOrder_Some_pen_shop:
  "createOrder Some pen_shop 7 pen_request =
     (Inr \<lparr> orderItems = [\<lparr> oi_name = ''pen'', oi_quantity = 2, oi_image = ''pen.jpg'',
                               oi_price = 10, oi_product = 1 \<rparr>],
            order_user = 7, shippingAddress = ''1 Main Street'', paymentMethod = ''PayPal'',
            itemsPrice = 0, taxPrice = 0, shippingPrice = 0, order_totalPrice = 0 \<rparr>,
      pen_shop\<lparr> Products := [1 \<mapsto> \<lparr> product_name = ''pen'', product_image = ''pen.jpg'',
                                       product_price = 10, inventory = 13 \<rparr>],
                Orders := [\<lparr> orderItems = [\<lparr> oi_name = ''pen'', oi_quantity = 2,
                                               oi_image = ''pen.jpg'', oi_price = 10,
                                               oi_product = 1 \<rparr>],
                            order_user = 7, shippingAddress = ''1 Main Street'',
                            paymentMethod = ''PayPal'', itemsPrice = 0, taxPrice = 0,
                            shippingPrice = 0, order_totalPrice = 0 \<rparr>] \<rparr>)"
  by (simp add: createOrder_def pen_shop_def pen_request_def Let_def)








lemma createOrder_Orders:
  "\<exists>more. Orders (snd (createOrder h s u body)) = Orders s @ more"
  by (auto simp: createOrder_def Let_def split: option.splits prod.splits sum.splits)

lemma shop_later_Orders: "\<exists>more. Orders (shop_later s events) = Orders s @ more"
  unfolding shop_later_def
proof (induction events arbitrary: s)
  case Nil
  then show ?case by simp
next
  case (Cons e events)
  have "\<exists>more. Orders (shop_after s e) = Orders s @ more"
  proof (cases e)
    case (createOrder_called h u body)
    with createOrder_Orders [of h s u body] show ?thesis by simp
  next
    case (Products_changed catalog)
    then show ?thesis by simp
  qed
  then obtain m1 where "Orders (shop_after s e) = Orders s @ m1" ..
  moreover from Cons.IH [of "shop_after s e"]
  obtain m2 where "Orders (foldl shop_after (shop_after s e) events) = Orders (shop_after s e) @ m2" ..
  ultimately show ?case
    by simp
qed

lemma db_later_items_examples:
  "tbl_items (db_later d [Items_changed catalog, AddToCart_called f u i q]) = catalog"
  by (simp add: db_later_def AddToCart_items)

section \<open>The claims\<close>

subsection \<open>C1\<close>

text \<open>
  C1.  \<^verbatim>\<open>CreateOrder\<close> inserts the order and closes the cart together or not at all,
  whichever calls to the database fail: either the handler answers with an error and the
  tables are exactly as before the call (the cart unchanged and open, no order), or it
  answers with the id of the new order and the tables differ from the old ones by exactly
  the new order row, for the open cart of the user, and that cart marked as checked out
  at the time of the call.
\<close>

theorem CreateOrder_atomic:
  "(\<exists>e. CreateOrder f now d u = (Inl e, d)) \<or>
   (\<exists>cart order.
      first_open_cart d u = Some cart \<and> cart \<in> set (tbl_carts d) \<and>
      Cart_UserID cart = u \<and> \<not> IsCheckedOut cart \<and>
      Order_UserID order = u \<and> Order_CartID order = Cart_ID cart \<and>
      CreateOrder f now d u =
        (Inr (Order_ID order),
         d\<lparr> tbl_orders := tbl_orders d @ [order],
            tbl_carts := map (\<lambda>c. if Cart_ID c = Cart_ID cart
                                  then cart\<lparr> IsCheckedOut := True, CheckedOutAt := Some now \<rparr>
                                  else c) (tbl_carts d) \<rparr>))"
proof (cases "CreateOrder f now d u")
  case (Pair r d')
  show ?thesis
  proof (cases r)
    case (Inl e)
    with Pair have "d' = d"
      by (auto simp: CreateOrder_cases split: if_splits option.splits)
    with Pair Inl show ?thesis by simp
  next
    case (Inr oid)
    with Pair obtain cart where cart: "first_open_cart d u = Some cart"
      by (auto simp: CreateOrder_cases split: if_splits option.splits)
    let ?order = "\<lparr> Order_ID = next_id (map Order_ID (tbl_orders d)),
                     Order_CreatedAt = now,
                     Order_UserID = u,
                     Order_CartID = Cart_ID cart,
                     Total = foldl (\<lambda>total (item, it).
                                      fadd total
                                        (fmul (Item_Price it) (of_int (sint (Quantity item)))))
                               0 (preload_CartItems d (Cart_ID cart)),
                     Status = ''completed'' \<rparr>"
    from Pair Inr cart
    have "CreateOrder f now d u =
        (Inr (Order_ID ?order),
         d\<lparr> tbl_orders := tbl_orders d @ [?order],
            tbl_carts := map (\<lambda>c. if Cart_ID c = Cart_ID cart
                                  then cart\<lparr> IsCheckedOut := True, CheckedOutAt := Some now \<rparr>
                                  else c) (tbl_carts d) \<rparr>)"
      by (auto simp: CreateOrder_cases split: if_splits)
    with cart first_open_cart_Some [OF cart] show ?thesis
      by (intro disjI2 exI [of _ cart] exI [of _ ?order]) simp
  qed
qed

theorem CreateOrder_atomic_witness:
  "CreateOrder (no_faults\<lparr> fail_commit := True \<rparr>) 100 pen_db 7 =
     (Inl (InternalServerError ''failed to process order''), pen_db) \<and>
   (\<exists>cart order.
      first_open_cart pen_db 7 = Some cart \<and> Order_CartID order = Cart_ID cart \<and>
      CreateOrder no_faults 100 pen_db 7 =
        (Inr (Order_ID order),
         pen_db\<lparr> tbl_orders := tbl_orders pen_db @ [order],
                 tbl_carts := map (\<lambda>c. if Cart_ID c = Cart_ID cart
                                       then cart\<lparr> IsCheckedOut := True, CheckedOutAt := Some 100 \<rparr>
                                       else c) (tbl_carts pen_db) \<rparr>))"
proof
  show "CreateOrder (no_faults\<lparr> fail_commit := True \<rparr>) 100 pen_db 7 =
     (Inl (InternalServerError ''failed to process order''), pen_db)"
    by (simp add: CreateOrder_def no_faults_def pen_db_def Begin_def Commit_def Rollback_def
        first_open_cart_def preload_CartItems_def preload_Item_def next_id_def Let_def)
  have "\<not> (\<exists>e. CreateOrder no_faults 100 pen_db 7 = (Inl e, pen_db))"
    by (simp add: CreateOrder_pen_db)
  with CreateOrder_atomic [of no_faults 100 pen_db 7]
  show "\<exists>cart order.
      first_open_cart pen_db 7 = Some cart \<and> Order_CartID order = Cart_ID cart \<and>
      CreateOrder no_faults 100 pen_db 7 =
        (Inr (Order_ID order),
         pen_db\<lparr> tbl_orders := tbl_orders pen_db @ [order],
                 tbl_carts := map (\<lambda>c. if Cart_ID c = Cart_ID cart
                                       then cart\<lparr> IsCheckedOut := True, CheckedOutAt := Some 100 \<rparr>
                                       else c) (tbl_carts pen_db) \<rparr>)"
    by blast
qed

subsection \<open>C2\<close>

text \<open>
  C2, as stated, fails on \<^verbatim>\<open>GetUserOrders\<close>: a pen is ordered at 10 (two of them, total
  20); the order history shows the line at 10 after the checkout and at 12 once the price
  of the pen has been raised to 12, beside the unchanged total of 20.
\<close>

theorem order_history_price_counterexample:
  "GetUserOrders no_faults (snd (CreateOrder no_faults 100 pen_db 7)) 7 =
     Inr [\<lparr> order_json_id = 1, order_json_total = 20, order_json_status = ''completed'',
            order_json_created_at = 100,
            order_json_items = [\<lparr> json_id = 1, json_name = ''pen'', json_description = ''a pen'',
                                   json_price = 10, json_quantity = 2 \<rparr>] \<rparr>] \<and>
   GetUserOrders no_faults
     ((snd (CreateOrder no_faults 100 pen_db 7))
        \<lparr> tbl_items := [\<lparr> Item_ID = 1, Item_Name = ''pen'', Item_Description = ''a pen'',
                          Item_Price = 12 \<rparr>] \<rparr>) 7 =
     Inr [\<lparr> order_json_id = 1, order_json_total = 20, order_json_status = ''completed'',
            order_json_created_at = 100,
            order_json_items = [\<lparr> json_id = 1, json_name = ''pen'', json_description = ''a pen'',
                                   json_price = 12, json_quantity = 2 \<rparr>] \<rparr>]"
  by (simp add: CreateOrder_pen_db)
     (simp add: GetUserOrders_def no_faults_def pen_db_def order_by_created_at_desc_def
        preload_Cart_CartItems_def preload_CartItems_def preload_Item_def)

text \<open>
  C2, amended.  Take a successful \<^verbatim>\<open>CreateOrder\<close> on tables whose cart lines have
  distinct keys, and any later calls of \<^verbatim>\<open>AddToCart\<close> and \<^verbatim>\<open>CreateOrder\<close> by any users
  and changes of the catalog.  The order history of the user then holds the order with the
  total computed at checkout (the binary64 sum over the lines of catalog price times
  quantity) and with the item ids and quantities of the lines of the cart at checkout; the
  price of each line is that of the item row in the catalog at the time of reading.

  Take a successful \<^verbatim>\<open>createOrder\<close>, whatever the Order model does on saving, and any
  later calls of \<^verbatim>\<open>createOrder\<close> and changes of the catalog.  The document that was stored
  is among the orders of its user, and the order view returns it, with its lines and
  prices as stored, to its user and to an administrator, and refuses it to anyone else.
\<close>

theorem order_read_back:
  "(\<forall>oid d'. CreateOrder f now d u = (Inr oid, d') \<and>
      distinct (map CartItem_ID (tbl_cart_items d)) \<and> \<not> fail_first g \<longrightarrow>
      (\<exists>cart json row.
         first_open_cart d u = Some cart \<and>
         GetUserOrders g (db_later d' events) u = Inr json \<and>
         row \<in> set json \<and>
         order_json_id row = oid \<and>
         order_json_total row =
           foldl (\<lambda>total ci.
                    fadd total
                      (fmul (case find (\<lambda>i. Item_ID i = CartItem_ItemID ci) (tbl_items d) of
                               Some i \<Rightarrow> Item_Price i | None \<Rightarrow> 0)
                         (of_int (sint (Quantity ci)))))
             0 (filter (\<lambda>ci. CartItem_CartID ci = Cart_ID cart) (tbl_cart_items d)) \<and>
         map (\<lambda>l. (json_id l, json_quantity l)) (order_json_items row) =
           map (\<lambda>ci. (CartItem_ItemID ci, Quantity ci))
             (filter (\<lambda>ci. CartItem_CartID ci = Cart_ID cart) (tbl_cart_items d)) \<and>
         map json_price (order_json_items row) =
           map (\<lambda>ci. case find (\<lambda>i. Item_ID i = CartItem_ItemID ci)
                             (tbl_items (db_later d' events)) of
                       Some i \<Rightarrow> Item_Price i | None \<Rightarrow> 0)
             (filter (\<lambda>ci. CartItem_CartID ci = Cart_ID cart) (tbl_cart_items d)))) \<and>
   (\<forall>created s'.
      createOrder Order_save s user body = (Inr created, s') \<longrightarrow>
      created \<in> set (getMyOrders (shop_later s' shop_events) (order_user created)) \<and>
      getOrderById (shop_later s' shop_events) reader is_admin (length (Orders s)) =
        (if order_user created \<noteq> reader \<and> \<not> is_admin then Inl NotAuthorized
         else Inr created))"
proof (intro conjI allI impI)
  fix oid d'
  assume "CreateOrder f now d u = (Inr oid, d') \<and>
      distinct (map CartItem_ID (tbl_cart_items d)) \<and> \<not> fail_first g"
  then have ok: "CreateOrder f now d u = (Inr oid, d')"
    and keys: "distinct (map CartItem_ID (tbl_cart_items d))" and g: "\<not> fail_first g"
    by simp_all
  show "\<exists>cart json row.
         first_open_cart d u = Some cart \<and>
         GetUserOrders g (db_later d' events) u = Inr json \<and>
         row \<in> set json \<and>
         order_json_id row = oid \<and>
         order_json_total row =
           foldl (\<lambda>total ci.
                    fadd total
                      (fmul (case find (\<lambda>i. Item_ID i = CartItem_ItemID ci) (tbl_items d) of
                               Some i \<Rightarrow> Item_Price i | None \<Rightarrow> 0)
                         (of_int (sint (Quantity ci)))))
             0 (filter (\<lambda>ci. CartItem_CartID ci = Cart_ID cart) (tbl_cart_items d)) \<and>
         map (\<lambda>l. (json_id l, json_quantity l)) (order_json_items row) =
           map (\<lambda>ci. (CartItem_ItemID ci, Quantity ci))
             (filter (\<lambda>ci. CartItem_CartID ci = Cart_ID cart) (tbl_cart_items d)) \<and>
         map json_price (order_json_items row) =
           map (\<lambda>ci. case find (\<lambda>i. Item_ID i = CartItem_ItemID ci)
                             (tbl_items (db_later d' events)) of
                       Some i \<Rightarrow> Item_Price i | None \<Rightarrow> 0)
             (filter (\<lambda>ci. CartItem_CartID ci = Cart_ID cart) (tbl_cart_items d))"
    using ok keys g by (rule GetUserOrders_after_CreateOrder)
next
  fix created s'
  assume ok: "createOrder Order_save s user body = (Inr created, s')"
  then obtain ps where s': "s' = s\<lparr> Products := ps, Orders := Orders s @ [created] \<rparr>"
    by (rule createOrder_Inr)
  from shop_later_Orders [of s' shop_events]
  obtain more where later: "Orders (shop_later s' shop_events) = Orders s @ created # more"
    by (auto simp: s')
  show "created \<in> set (getMyOrders (shop_later s' shop_events) (order_user created))"
    by (simp add: getMyOrders_def later)
  show "getOrderById (shop_later s' shop_events) reader is_admin (length (Orders s)) =
        (if order_user created \<noteq> reader \<and> \<not> is_admin then Inl NotAuthorized
         else Inr created)"
    by (simp add: getOrderById_def later)
qed

theorem order_read_back_witness:
  "\<not> fail_first no_faults \<and> distinct (map CartItem_ID (tbl_cart_items pen_db)) \<and>
   (\<exists>d' json row.
      CreateOrder no_faults 100 pen_db 7 = (Inr 1, d') \<and>
      GetUserOrders no_faults
        (db_later d'
           [Items_changed [\<lparr> Item_ID = 1, Item_Name = ''pen'', Item_Description = ''a pen'',
                              Item_Price = 12 \<rparr>],
            AddToCart_called no_faults 7 1 3]) 7 = Inr json \<and>
      row \<in> set json \<and> order_json_id row = 1 \<and> order_json_total row = 20 \<and>
      map (\<lambda>l. (json_id l, json_quantity l)) (order_json_items row) = [(1, 2)] \<and>
      map json_price (order_json_items row) = [12]) \<and>
   (\<exists>created s'.
      createOrder Some pen_shop 7 pen_request = (Inr created, s') \<and>
      map oi_price (orderItems created) = [10] \<and>
      getOrderById
        (shop_later s'
           [Products_changed
              [1 \<mapsto> \<lparr> product_name = ''pen'', product_image = ''pen.jpg'',
                       product_price = 12, inventory = 13 \<rparr>],
            createOrder_called Some 8 pen_request]) 7 False 0 = Inr created)"
proof -
  let ?catalog = "[\<lparr> Item_ID = 1, Item_Name = ''pen'', Item_Description = ''a pen'',
                     Item_Price = 12 \<rparr>]"
  let ?events = "[Items_changed ?catalog, AddToCart_called no_faults 7 1 3]"
  let ?shop_events = "[Products_changed
              [1 \<mapsto> \<lparr> product_name = ''pen'', product_image = ''pen.jpg'',
                       product_price = 12, inventory = 13 \<rparr>],
            createOrder_called Some 8 pen_request]"
  have nf: "\<not> fail_first no_faults"
    by (simp add: no_faults_def)
  have keys: "distinct (map CartItem_ID (tbl_cart_items pen_db))"
    by (simp add: pen_db_def)
  obtain d' where run: "CreateOrder no_faults 100 pen_db 7 = (Inr 1, d')"
    using CreateOrder_pen_db by blast
  from order_read_back [where g = no_faults and events = ?events, THEN conjunct1, rule_format,
      OF conjI [OF run conjI [OF keys nf]]]
  obtain cart json row where cart: "first_open_cart pen_db 7 = Some cart"
    and json: "GetUserOrders no_faults (db_later d' ?events) 7 = Inr json"
      "row \<in> set json" "order_json_id row = 1"
    and total: "order_json_total row =
        foldl (\<lambda>total ci.
                 fadd total
                   (fmul (case find (\<lambda>i. Item_ID i = CartItem_ItemID ci) (tbl_items pen_db) of
                            Some i \<Rightarrow> Item_Price i | None \<Rightarrow> 0)
                      (of_int (sint (Quantity ci)))))
          0 (filter (\<lambda>ci. CartItem_CartID ci = Cart_ID cart) (tbl_cart_items pen_db))"
    and qty: "map (\<lambda>l. (json_id l, json_quantity l)) (order_json_items row) =
        map (\<lambda>ci. (CartItem_ItemID ci, Quantity ci))
          (filter (\<lambda>ci. CartItem_CartID ci = Cart_ID cart) (tbl_cart_items pen_db))"
    and price: "map json_price (order_json_items row) =
        map (\<lambda>ci. case find (\<lambda>i. Item_ID i = CartItem_ItemID ci)
                          (tbl_items (db_later d' ?events)) of
                    Some i \<Rightarrow> Item_Price i | None \<Rightarrow> 0)
          (filter (\<lambda>ci. CartItem_CartID ci = Cart_ID cart) (tbl_cart_items pen_db))"
    by blast
  from cart have id: "Cart_ID cart = 1"
    by (auto simp: first_open_cart_def pen_db_def)
  from total have total': "order_json_total row = 20"
    by (simp add: id pen_db_def float_examples)
  from qty have qty': "map (\<lambda>l. (json_id l, json_quantity l)) (order_json_items row) = [(1, 2)]"
    by (simp add: id pen_db_def)
  from price have price': "map json_price (order_json_items row) = [12]"
    unfolding db_later_items_examples by (simp add: id pen_db_def)
  have go: "\<exists>d' json row.
      CreateOrder no_faults 100 pen_db 7 = (Inr 1, d') \<and>
      GetUserOrders no_faults (db_later d' ?events) 7 = Inr json \<and>
      row \<in> set json \<and> order_json_id row = 1 \<and> order_json_total row = 20 \<and>
      map (\<lambda>l. (json_id l, json_quantity l)) (order_json_items row) = [(1, 2)] \<and>
      map json_price (order_json_items row) = [12]"
    by (intro conjI exI [of _ d'] exI [of _ json] exI [of _ row])
      (fact run json total' qty' price')+
  obtain created s' where stored: "createOrder Some pen_shop 7 pen_request = (Inr created, s')"
    and lines: "map oi_price (orderItems created) = [10]"
    and user: "order_user created = 7"
    using createOrder_Some_pen_shop by simp
  from order_read_back [where shop_events = ?shop_events and reader = 7 and is_admin = False,
      THEN conjunct2, rule_format, OF stored] user
  have view: "getOrderById (shop_later s' ?shop_events) 7 False 0 = Inr created"
    by (simp add: pen_shop_def)
  have js: "\<exists>created s'.
      createOrder Some pen_shop 7 pen_request = (Inr created, s') \<and>
      map oi_price (orderItems created) = [10] \<and>
      getOrderById (shop_later s' ?shop_events) 7 False 0 = Inr created"
    by (intro conjI exI [of _ created] exI [of _ s']) (fact stored lines view)+
  from nf keys go js show ?thesis
    by (intro conjI)
qed

subsection \<open>C3\<close>




subsection \<open>C4\<close>




subsection \<open>C5\<close>

text \<open>
  C5.  When the lookup of the cart itself does not fail, \<^verbatim>\<open>CreateOrder\<close> answers
  \<^verbatim>\<open>no active cart found\<close> for a user without an open cart and \<^verbatim>\<open>cart is empty\<close> for
  an open cart without lines, and \<^verbatim>\<open>createOrder\<close> answers \<^verbatim>\<open>No order items\<close> for an
  empty list of lines; in each case the store is as before the call, so no order exists
  that did not exist before.
\<close>

theorem checkout_rejects_missing_or_empty_cart:
  assumes "\<not> fail_first f"
  shows "(first_open_cart d u = None \<longrightarrow>
            CreateOrder f now d u = (Inl (BadRequest ''no active cart found''), d)) \<and>
         (\<forall>cart. first_open_cart d u = Some cart \<and>
                 filter (\<lambda>ci. CartItem_CartID ci = Cart_ID cart) (tbl_cart_items d) = [] \<longrightarrow>
            CreateOrder f now d u = (Inl (BadRequest ''cart is empty''), d)) \<and>
         createOrder Order_save s user (body\<lparr> req_orderItems := Some [] \<rparr>) = (Inl NoOrderItems, s)"
  using assms
  by (simp add: CreateOrder_cases preload_CartItems_def createOrder_def)

theorem checkout_rejects_missing_or_empty_cart_witness:
  "\<not> fail_first no_faults \<and>
   first_open_cart (pen_db\<lparr> tbl_carts := [] \<rparr>) 7 = None \<and>
   CreateOrder no_faults 100 (pen_db\<lparr> tbl_carts := [] \<rparr>) 7 =
     (Inl (BadRequest ''no active cart found''), pen_db\<lparr> tbl_carts := [] \<rparr>) \<and>
   first_open_cart (pen_db\<lparr> tbl_cart_items := [] \<rparr>) 7 =
     Some \<lparr> Cart_ID = 1, Cart_UserID = 7, IsCheckedOut = False, CheckedOutAt = None \<rparr> \<and>
   CreateOrder no_faults 100 (pen_db\<lparr> tbl_cart_items := [] \<rparr>) 7 =
     (Inl (BadRequest ''cart is empty''), pen_db\<lparr> tbl_cart_items := [] \<rparr>) \<and>
   createOrder Some pen_shop 7 (pen_request\<lparr> req_orderItems := Some [] \<rparr>) =
     (Inl NoOrderItems, pen_shop)"
proof -
  have nf: "\<not> fail_first no_faults"
    by (simp add: no_faults_def)
  have none: "first_open_cart (pen_db\<lparr> tbl_carts := [] \<rparr>) 7 = None"
    by (simp add: first_open_cart_def)
  have some: "first_open_cart (pen_db\<lparr> tbl_cart_items := [] \<rparr>) 7 =
      Some \<lparr> Cart_ID = 1, Cart_UserID = 7, IsCheckedOut = False, CheckedOutAt = None \<rparr>"
    by (simp add: first_open_cart_def pen_db_def)
  from checkout_rejects_missing_or_empty_cart [OF nf, of "pen_db\<lparr> tbl_carts := [] \<rparr>" 7 100 Some pen_shop 7 pen_request]
    none
  have a: "CreateOrder no_faults 100 (pen_db\<lparr> tbl_carts := [] \<rparr>) 7 =
      (Inl (BadRequest ''no active cart found''), pen_db\<lparr> tbl_carts := [] \<rparr>)"
    and c: "createOrder Some pen_shop 7 (pen_request\<lparr> req_orderItems := Some [] \<rparr>) =
      (Inl NoOrderItems, pen_shop)"
    by simp_all
  from checkout_rejects_missing_or_empty_cart [OF nf, of "pen_db\<lparr> tbl_cart_items := [] \<rparr>" 7 100 Some pen_shop 7 pen_request]
    some
  have b: "CreateOrder no_faults 100 (pen_db\<lparr> tbl_cart_items := [] \<rparr>) 7 =
      (Inl (BadRequest ''cart is empty''), pen_db\<lparr> tbl_cart_items := [] \<rparr>)"
    by simp
  from nf none some a b c show ?thesis
    by simp
qed

subsection \<open>C6\<close>




subsection \<open>C7\<close>




subsection \<open>C8\<close>

text \<open>
  C8, as stated, fails on \<^verbatim>\<open>createOrder\<close>: the pen has an inventory of 15 before an
  order of two pens and of 13 after it.
\<close>

theorem createOrder_inventory_counterexample:
  "Products pen_shop 1 =
     Some \<lparr> product_name = ''pen'', product_image = ''pen.jpg'', product_price = 10,
            inventory = 15 \<rparr> \<and>
   Products (snd (createOrder (\<lambda>order. Some (order_pre_save order)) pen_shop 7 pen_request)) 1 =
     Some \<lparr> product_name = ''pen'', product_image = ''pen.jpg'', product_price = 10,
            inventory = 13 \<rparr>"
proof
  show "Products pen_shop 1 =
     Some \<lparr> product_name = ''pen'', product_image = ''pen.jpg'', product_price = 10,
            inventory = 15 \<rparr>"
    by (simp add: pen_shop_def)
  show "Products (snd (createOrder (\<lambda>order. Some (order_pre_save order)) pen_shop 7 pen_request)) 1 =
     Some \<lparr> product_name = ''pen'', product_image = ''pen.jpg'', product_price = 10,
            inventory = 13 \<rparr>"
    by (subst createOrder_pen_shop) simp
qed

text \<open>
  C8, amended.  No handler of the Item cart (\<^verbatim>\<open>getCart\<close>, \<^verbatim>\<open>addItemToCart\<close>,
  \<^verbatim>\<open>updateCartItem\<close>, \<^verbatim>\<open>removeItemFromCart\<close>, \<^verbatim>\<open>clearCart\<close>) changes an item, neither
  \<^verbatim>\<open>AddToCart\<close> nor \<^verbatim>\<open>CreateOrder\<close> changes a row of the items table, and
  \<^verbatim>\<open>calculateTotals\<close> changes no product.  \<^verbatim>\<open>createOrder\<close> adds and removes no product and
  changes of a product nothing but its inventory; when it succeeds, the inventory of every
  product is lower by the quantities of the lines ordered of it.
\<close>

theorem catalog_writes:
  "Items (snd (getCart s user)) = Items s \<and>
   Items (snd (addItemToCart s user itemId quantity_opt)) = Items s \<and>
   Items (snd (updateCartItem s user item quantity)) = Items s \<and>
   Items (snd (removeItemFromCart s user item)) = Items s \<and>
   Items (snd (clearCart s user)) = Items s \<and>
   tbl_items (snd (AddToCart f d u item_id q)) = tbl_items d \<and>
   tbl_items (snd (CreateOrder f now d u)) = tbl_items d \<and>
   (\<forall>c shop'. calculateTotals shop user items_modified this = Some (c, shop') \<longrightarrow>
      Products shop' = Products shop) \<and>
   (\<forall>pid. map_option (\<lambda>p. p\<lparr> inventory := 0 \<rparr>)
            (Products (snd (createOrder Order_save shop user body)) pid) =
          map_option (\<lambda>p. p\<lparr> inventory := 0 \<rparr>) (Products shop pid)) \<and>
   (\<forall>created shop' items pid p.
      createOrder Order_save shop user body = (Inr created, shop') \<and>
      req_orderItems body = Some items \<and> Products shop pid = Some p \<longrightarrow>
      Products shop' pid =
        Some (p\<lparr> inventory := inventory p -
                (\<Sum>i\<leftarrow>filter (\<lambda>i. client_product i = pid) items. client_quantity i) \<rparr>))"
proof (intro conjI allI impI)
  show "Items (snd (getCart s user)) = Items s"
    using getCart_wrote by (rule wrote_Items)
  show "Items (snd (addItemToCart s user itemId quantity_opt)) = Items s"
    using addItemToCart_wrote by (rule wrote_Items)
  show "Items (snd (updateCartItem s user item quantity)) = Items s"
    using updateCartItem_wrote by (rule wrote_Items)
  show "Items (snd (removeItemFromCart s user item)) = Items s"
    using removeItemFromCart_wrote by (rule wrote_Items)
  show "Items (snd (clearCart s user)) = Items s"
    using clearCart_wrote by (rule wrote_Items)
  show "tbl_items (snd (AddToCart f d u item_id q)) = tbl_items d"
    by (rule AddToCart_items)
  show "tbl_items (snd (CreateOrder f now d u)) = tbl_items d"
    by (rule CreateOrder_items)
next
  fix c shop'
  assume "calculateTotals shop user items_modified this = Some (c, shop')"
  then show "Products shop' = Products shop"
    by (rule calculateTotals_Products)
next
  fix pid
  show "map_option (\<lambda>p. p\<lparr> inventory := 0 \<rparr>)
            (Products (snd (createOrder Order_save shop user body)) pid) =
          map_option (\<lambda>p. p\<lparr> inventory := 0 \<rparr>) (Products shop pid)"
    by (rule createOrder_frame)
next
  fix created shop' items pid p
  assume "createOrder Order_save shop user body = (Inr created, shop') \<and>
      req_orderItems body = Some items \<and> Products shop pid = Some p"
  then have ok: "createOrder Order_save shop user body = (Inr created, shop')"
    and items: "req_orderItems body = Some items" and p: "Products shop pid = Some p"
    by simp_all
  from ok obtain items' lines ps where "req_orderItems body = Some items'"
    and lines: "dbItems (Products shop) items' = (Inr lines, ps)"
    and shop': "shop' = shop\<lparr> Products := ps, Orders := Orders shop @ [created] \<rparr>"
    by (rule createOrder_Inr)
  with items have "dbItems (Products shop) items = (Inr lines, ps)"
    by simp
  from dbItems_inventory [OF this p] show "Products shop' pid =
        Some (p\<lparr> inventory := inventory p -
                (\<Sum>i\<leftarrow>filter (\<lambda>i. client_product i = pid) items. client_quantity i) \<rparr>)"
    by (simp add: shop')
qed

theorem catalog_writes_witness:
  "(\<exists>created shop'.
      createOrder (\<lambda>order. Some (order_pre_save order)) pen_shop 7 pen_request =
        (Inr created, shop') \<and>
      map_option inventory (Products shop' 1) = Some 13 \<and>
      map_option product_price (Products shop' 1) = Some 10) \<and>
   Items (snd (addItemToCart desk_store 7 ''000000000000000000000001'' (Some (Num 3)))) = Items desk_store"
proof
  obtain created shop' where
    run: "createOrder (\<lambda>order. Some (order_pre_save order)) pen_shop 7 pen_request =
      (Inr created, shop')"
    using createOrder_pen_shop by blast
  have items: "req_orderItems pen_request = Some [\<lparr> client_product = 1, client_quantity = 2 \<rparr>]"
    by (simp add: pen_request_def)
  have p: "Products pen_shop 1 =
      Some \<lparr> product_name = ''pen'', product_image = ''pen.jpg'', product_price = 10,
             inventory = 15 \<rparr>"
    by (simp add: pen_shop_def)
  note facts = catalog_writes [where Order_save = "\<lambda>order. Some (order_pre_save order)"
      and shop = pen_shop and user = 7 and body = pen_request]
  from facts [THEN conjunct2, THEN conjunct2, THEN conjunct2, THEN conjunct2, THEN conjunct2,
      THEN conjunct2, THEN conjunct2, THEN conjunct2, THEN conjunct2, rule_format,
      OF conjI [OF run conjI [OF items p]]]
  have "Products shop' 1 =
      Some \<lparr> product_name = ''pen'', product_image = ''pen.jpg'', product_price = 10,
             inventory = 13 \<rparr>"
    by simp
  with run show "\<exists>created shop'.
      createOrder (\<lambda>order. Some (order_pre_save order)) pen_shop 7 pen_request =
        (Inr created, shop') \<and>
      map_option inventory (Products shop' 1) = Some 13 \<and>
      map_option product_price (Products shop' 1) = Some 10"
    by auto
next
  from catalog_writes [of desk_store 7 "''000000000000000000000001''" "Some (Num 3)"]
  show "Items (snd (addItemToCart desk_store 7 ''000000000000000000000001'' (Some (Num 3)))) = Items desk_store"
    by blast
qed

subsection \<open>C10\<close>

text \<open>
  C10.  \<^verbatim>\<open>getCart\<close> is not a read-only operation.  When the stored cart of the user
  (a cart that satisfies its schema) holds a line whose item has been deleted or has
  \<^verbatim>\<open>countInStock\<close> equal to 0, the call stores the cart without exactly those lines:
  the lines that remain are the lines whose item exists with a stock other than 0, in their
  order and unchanged; the cart stays the cart of the same user, the carts of all other
  users are untouched and so is every item.
\<close>

theorem getCart_removes_unavailable_items:
  assumes stored: "Carts s user = Some c"
    and valid: "validate_cart c"
    and stale: "\<exists>ci\<in>set (cart_items c).
                  Items s (ci_item ci) = None \<or>
                  (\<exists>it. Items s (ci_item ci) = Some it \<and> countInStock it = 0)"
  shows "\<exists>c'. Carts (snd (getCart s user)) user = Some c' \<and>
           cart_items c' =
             filter (\<lambda>ci. \<exists>it. Items s (ci_item ci) = Some it \<and> countInStock it \<noteq> 0)
               (cart_items c) \<and>
           cart_items c' \<noteq> cart_items c \<and>
           (\<forall>u. u \<noteq> user \<longrightarrow> Carts (snd (getCart s user)) u = Carts s u) \<and>
           Items (snd (getCart s user)) = Items s"
proof -
  let ?valid = "filter (in_inventory s) (cart_items c)"
  from stale have "\<exists>ci\<in>set (cart_items c). \<not> in_inventory s ci"
    unfolding in_inventory_iff by force
  then have shorter: "length ?valid \<noteq> length (cart_items c)"
    by (rule filter_shorter)
  then have differs: "?valid \<noteq> cart_items c"
    by auto
  have eq: "?valid =
      filter (\<lambda>ci. \<exists>it. Items s (ci_item ci) = Some it \<and> countInStock it \<noteq> 0) (cart_items c)"
    by (rule filter_cong) (simp_all add: in_inventory_iff)
  have ok: "validate_cart (c\<lparr> cart_items := ?valid \<rparr>)"
    using valid by (rule validate_cart_filter)
  have run: "getCart s user =
      (Inr (view (s\<lparr> Carts := (Carts s)(user \<mapsto> pre_save (c\<lparr> cart_items := ?valid \<rparr>)) \<rparr>)
              (pre_save (c\<lparr> cart_items := ?valid \<rparr>))),
       s\<lparr> Carts := (Carts s)(user \<mapsto> pre_save (c\<lparr> cart_items := ?valid \<rparr>)) \<rparr>)"
    using stored shorter ok
    by (simp add: getCart_def save_and_respond_def save_def Let_def)
  show ?thesis
    unfolding run using differs eq
    by (simp add: pre_save_def)
qed

theorem getCart_removes_unavailable_items_witness:
  "Carts sold_out_store 7 = Some \<lparr> cart_items = [pen_line, ink_line], totalPrice = 24, totalItems = 3 \<rparr> \<and>
   validate_cart \<lparr> cart_items = [pen_line, ink_line], totalPrice = 24, totalItems = 3 \<rparr> \<and>
   (\<exists>it. Items sold_out_store (ci_item ink_line) = Some it \<and> countInStock it = 0) \<and>
   (\<exists>c'. Carts (snd (getCart sold_out_store 7)) 7 = Some c' \<and> cart_items c' = [pen_line])"
proof -
  let ?c = "\<lparr> cart_items = [pen_line, ink_line], totalPrice = 24, totalItems = 3 \<rparr>"
  have h1: "Carts sold_out_store 7 = Some ?c"
    by (simp add: sold_out_store_def)
  have h2: "validate_cart ?c"
    by (simp add: validate_cart_def validate_cartItem_def pen_line_def ink_line_def)
  have h3: "\<exists>it. Items sold_out_store (ci_item ink_line) = Some it \<and> countInStock it = 0"
    by (simp add: sold_out_store_def shelf_def ink_line_def)
  then have h3': "\<exists>ci\<in>set (cart_items ?c).
      Items sold_out_store (ci_item ci) = None \<or>
      (\<exists>it. Items sold_out_store (ci_item ci) = Some it \<and> countInStock it = 0)"
    by simp
  from getCart_removes_unavailable_items [OF h1 h2 h3']
  obtain c' where c': "Carts (snd (getCart sold_out_store 7)) 7 = Some c'"
    "cart_items c' = filter (\<lambda>ci. \<exists>it. Items sold_out_store (ci_item ci) = Some it \<and> countInStock it \<noteq> 0)
        (cart_items ?c)"
    by blast
  have "cart_items c' = [pen_line]"
    unfolding c'(2) by (simp add: sold_out_store_def shelf_def pen_line_def ink_line_def)
  with c'(1) h1 h2 h3 show ?thesis by blast
qed

end
